theory Spec2Isabelle
  imports Complex_Main
begin

section \<open>Data model\<close>

text \<open>
  The development embeds \<^verbatim>\<open>src/pybass3/pys2_playlist.py\<close>: the class
  \<^verbatim>\<open>Pys2Playlist\<close>, which extends \<^verbatim>\<open>Playlist\<close> with Qt signals and a
  ticker. Songs are referenced by identity; the signal payloads of the source are
  song ids (strings).
\<close>

type_synonym song_id = string

text \<open>
  Modelled from the spec: the play modes of \<^verbatim>\<open>PlaylistMode\<close> (declared in
  \<^verbatim>\<open>playlist.py\<close>): Sequential, Random and LoopSingle. The source names
  \<^verbatim>\<open>PlaylistMode.loop_single\<close>, \<^verbatim>\<open>set_sequential\<close> and
  \<^verbatim>\<open>set_randomize\<close>.
\<close>

datatype PlaylistMode = sequential | randomize | loop_single

text \<open>
  Modelled from the spec: the readings of a track handle (\<^verbatim>\<open>Pys2Song\<close>, declared
  in \<^verbatim>\<open>pys2_song.py\<close>) that the playlist consults. Seconds are only ever
  compared, so they are reals.
\<close>

record Song =
  remaining_bytes :: int
  remaining_seconds :: real
  is_playing :: bool

text \<open>
  The calls made on track handles are recorded in order, as a fake handle that
  counts calls would.
\<close>

datatype handle_call =
    Play song_id
  | Stop song_id
  | FreeStream song_id
  | Move2PositionSeconds song_id real

text \<open>The Qt signals declared by \<^verbatim>\<open>Pys2Playlist\<close>, with their payloads.\<close>

datatype signal =
    song_added song_id
  | songs_added int "song_id list"
  | song_changed song_id
  | music_paused song_id
  | music_playing song_id
  | music_stopped song_id
  | queue_changed
  | ticked

text \<open>
  Modelled from the spec: the attributes of the base class \<^verbatim>\<open>Playlist\<close>
  (\<^verbatim>\<open>playlist.py\<close>) that \<^verbatim>\<open>Pys2Playlist\<close> reads and writes. The field
  \<open>songs\<close> is the store of handle readings by identity and \<open>handle_calls\<close> is the
  log of calls made on handles. The queue position is an integer, as the source
  increments it with \<^verbatim>\<open>+= 1\<close>.
\<close>

record Playlist =
  VALID_TYPES :: "string list"
  queue :: "song_id list"
  queue_position :: int
  play_mode :: PlaylistMode
  fade_in :: real
  current :: "song_id option"
  fadein_song :: "song_id option"
  songs :: "song_id \<Rightarrow> Song"
  handle_calls :: "handle_call list"

text \<open>
  \<^verbatim>\<open>class Pys2Playlist(QtCore.QObject, Playlist)\<close>: the base attributes, the
  signals emitted so far (in order) and whether the \<^verbatim>\<open>QTimer\<close> ticker runs.
\<close>

record Pys2Playlist = Playlist +
  emitted :: "signal list"
  ticker_active :: bool

datatype error = TypeError | DuplicateId

section \<open>Collaborators\<close>

subsection \<open>Track handle\<close>

text \<open>
  Modelled from the spec: the track handle's \<^verbatim>\<open>play()\<close>. It marks the track
  playing.
\<close>

definition Song_play :: "song_id \<Rightarrow> 'a Playlist_scheme \<Rightarrow> 'a Playlist_scheme" where
  "Song_play i p =
     p\<lparr>songs := (songs p)(i := (songs p i)\<lparr>is_playing := True\<rparr>),
       handle_calls := handle_calls p @ [Play i]\<rparr>"

text \<open>Modelled from the spec: the track handle's \<^verbatim>\<open>stop()\<close>.\<close>

definition Song_stop :: "song_id \<Rightarrow> 'a Playlist_scheme \<Rightarrow> 'a Playlist_scheme" where
  "Song_stop i p =
     p\<lparr>songs := (songs p)(i := (songs p i)\<lparr>is_playing := False\<rparr>),
       handle_calls := handle_calls p @ [Stop i]\<rparr>"

text \<open>
  Modelled from the spec: the track handle's \<^verbatim>\<open>free_stream()\<close>, the release of
  its playback resources.
\<close>

definition Song_free_stream :: "song_id \<Rightarrow> 'a Playlist_scheme \<Rightarrow> 'a Playlist_scheme" where
  "Song_free_stream i p = p\<lparr>handle_calls := handle_calls p @ [FreeStream i]\<rparr>"

text \<open>
  Modelled from the spec: the track handle's \<^verbatim>\<open>move2position_seconds(pos)\<close>.
  The readings that the handle reports afterwards are the backend's; only the call
  is recorded.
\<close>

definition Song_move2position_seconds ::
  "song_id \<Rightarrow> real \<Rightarrow> 'a Playlist_scheme \<Rightarrow> 'a Playlist_scheme" where
  "Song_move2position_seconds i pos p =
     p\<lparr>handle_calls := handle_calls p @ [Move2PositionSeconds i pos]\<rparr>"

subsection \<open>Queue resolution of the base class\<close>

definition entry_at :: "'a Playlist_scheme \<Rightarrow> int \<Rightarrow> song_id option" where
  "entry_at p i =
     (if 0 \<le> i \<and> i < int (length (queue p)) then Some (queue p ! nat i) else None)"

text \<open>
  The pseudo-random selection: the source of randomness is the argument \<open>draw\<close>.
  The selected entry differs from the one at the queue position when the queue has
  more than one entry.
\<close>

definition random_entry :: "nat \<Rightarrow> 'a Playlist_scheme \<Rightarrow> song_id option" where
  "random_entry draw p =
     (let candidates =
            filter (\<lambda>i. length (queue p) \<le> 1 \<or> int i \<noteq> queue_position p)
              [0 ..< length (queue p)]
      in if candidates = [] then None
         else Some (queue p ! (candidates ! (draw mod length candidates))))"

text \<open>
  Modelled from the spec: \<^verbatim>\<open>Playlist.next\<close> (\<^verbatim>\<open>playlist.py\<close>). In Sequential
  mode it returns the entry at \<open>queue_position + 1\<close> if it exists, else nothing; in
  Random mode a pseudo-randomly selected entry; in LoopSingle mode the entry at
  \<open>queue_position\<close>. The queue never advances \<open>queue_position\<close> itself and starts
  no playback.
\<close>

definition Playlist_next ::
  "nat \<Rightarrow> 'a Playlist_scheme \<Rightarrow> song_id option \<times> 'a Playlist_scheme" where
  "Playlist_next draw p =
     (case play_mode p of
        sequential \<Rightarrow> (entry_at p (queue_position p + 1), p)
      | randomize \<Rightarrow> (random_entry draw p, p)
      | loop_single \<Rightarrow> (entry_at p (queue_position p), p))"

text \<open>
  Modelled from the spec: \<^verbatim>\<open>Playlist.previous\<close> (\<^verbatim>\<open>playlist.py\<close>),
  symmetric to \<^verbatim>\<open>next\<close>.
\<close>

definition Playlist_previous ::
  "nat \<Rightarrow> 'a Playlist_scheme \<Rightarrow> song_id option \<times> 'a Playlist_scheme" where
  "Playlist_previous draw p =
     (case play_mode p of
        sequential \<Rightarrow> (entry_at p (queue_position p - 1), p)
      | randomize \<Rightarrow> (random_entry draw p, p)
      | loop_single \<Rightarrow> (entry_at p (queue_position p), p))"

text \<open>
  Modelled from the spec: the property \<^verbatim>\<open>Playlist.upcoming\<close>
  (\<^verbatim>\<open>playlist.py\<close>), the track that the queue's next-resolution yields.
\<close>

definition Playlist_upcoming :: "nat \<Rightarrow> 'a Playlist_scheme \<Rightarrow> song_id option" where
  "Playlist_upcoming draw p = fst (Playlist_next draw p)"

text \<open>
  Modelled from the spec: \<^verbatim>\<open>Playlist.play\<close> (\<^verbatim>\<open>playlist.py\<close>). With no
  current track it takes the queue's track at \<open>queue_position\<close> (the first entry if
  the position is unset) and marks it playing; an empty queue is a no-op. Otherwise
  it resumes the current track.
\<close>

definition Playlist_play :: "'a Playlist_scheme \<Rightarrow> 'a Playlist_scheme" where
  "Playlist_play p =
     (case current p of
        None \<Rightarrow>
          (if queue p = [] then p
           else
             let i = (if 0 \<le> queue_position p \<and> queue_position p < int (length (queue p))
                      then queue_position p else 0)
             in Song_play (queue p ! nat i) (p\<lparr>current := Some (queue p ! nat i),
                                                 queue_position := i\<rparr>))
      | Some c \<Rightarrow> Song_play c p)"

text \<open>Modelled from the spec: \<^verbatim>\<open>len(self)\<close>, the number of queue entries.\<close>

definition Playlist_len :: "'a Playlist_scheme \<Rightarrow> int" where
  "Playlist_len p = int (length (queue p))"

subsection \<open>Directories and the catalog\<close>

text \<open>
  What the catalog answers for a file path when \<^verbatim>\<open>Playlist.add_song\<close> is
  called on it: a track with an identity, no track (\<^verbatim>\<open>None\<close>), or a rejection
  that raises \<^verbatim>\<open>TypeError\<close>. These are the three outcomes that the callers in
  the source handle.
\<close>

datatype catalog_reply = Track song_id | NoTrack | Rejected

text \<open>
  A directory as \<^verbatim>\<open>iterdir()\<close> lists it: its regular files, each with its
  suffix, and its subdirectories.
\<close>

datatype file_entry = File (file_suffix: string) (reply: catalog_reply)

datatype directory = Directory (dir_files: "file_entry list") (dir_dirs: "directory list")

text \<open>
  Modelled from the spec: \<^verbatim>\<open>Playlist.add_song\<close> (\<^verbatim>\<open>playlist.py\<close>). It
  appends the track to the queue and fails with \<^verbatim>\<open>DuplicateId\<close> if the identity
  is already present.
\<close>

definition Playlist_add_song ::
  "file_entry \<Rightarrow> 'a Playlist_scheme \<Rightarrow> error + (song_id option \<times> 'a Playlist_scheme)" where
  "Playlist_add_song song_path p =
     (case reply song_path of
        Rejected \<Rightarrow> Inl TypeError
      | NoTrack \<Rightarrow> Inr (None, p)
      | Track i \<Rightarrow>
          (if i \<in> set (queue p) then Inl DuplicateId
           else Inr (Some i, p\<lparr>queue := queue p @ [i]\<rparr>)))"

section \<open>The class Pys2Playlist\<close>

definition emit :: "signal \<Rightarrow> Pys2Playlist \<Rightarrow> Pys2Playlist" where
  "emit sg s = s\<lparr>emitted := emitted s @ [sg]\<rparr>"

text \<open>\<^verbatim>\<open>Pys2Playlist.add_song\<close> (lines 47-53).\<close>

definition Pys2Playlist_add_song ::
  "file_entry \<Rightarrow> bool \<Rightarrow> Pys2Playlist \<Rightarrow> error + (song_id option \<times> Pys2Playlist)" where
  "Pys2Playlist_add_song song_path supress_emit s =
     (case Playlist_add_song song_path s of
        Inl e \<Rightarrow> Inl e
      | Inr (song, s1) \<Rightarrow>
          (case song of
             None \<Rightarrow> Inr (None, s1)
           | Some i \<Rightarrow> Inr (Some i, if \<not> supress_emit then emit (song_added i) s1 else s1)))"

text \<open>
  The loop over the files of \<^verbatim>\<open>add_directory\<close> (lines 71-77): a
  \<^verbatim>\<open>TypeError\<close> is swallowed, any other failure propagates.
\<close>

fun add_files ::
  "file_entry list \<Rightarrow> bool \<Rightarrow> song_id list \<Rightarrow> Pys2Playlist \<Rightarrow>
     error + (song_id list \<times> Pys2Playlist)" where
  "add_files [] surpress_emit song_ids s = Inr (song_ids, s)"
| "add_files (song_path # rest) surpress_emit song_ids s =
     (case Pys2Playlist_add_song song_path surpress_emit s of
        Inl TypeError \<Rightarrow> add_files rest surpress_emit song_ids s
      | Inl e \<Rightarrow> Inl e
      | Inr (None, s1) \<Rightarrow> add_files rest surpress_emit song_ids s1
      | Inr (Some i, s1) \<Rightarrow> add_files rest surpress_emit (song_ids @ [i]) s1)"

text \<open>
  \<^verbatim>\<open>Pys2Playlist.add_directory\<close> (lines 55-88). The recursive call of line 82
  is \<^verbatim>\<open>self.add_directory(fdir, recurse)\<close>: \<^verbatim>\<open>top\<close> and
  \<^verbatim>\<open>surpress_emit\<close> take their defaults, \<^verbatim>\<open>False\<close> and \<^verbatim>\<open>True\<close>.
  \<open>add_subdirs\<close> is the loop of lines 81-83.
\<close>

fun add_directory ::
  "directory \<Rightarrow> bool \<Rightarrow> bool \<Rightarrow> bool \<Rightarrow> Pys2Playlist \<Rightarrow>
     error + ((int \<times> song_id list) \<times> Pys2Playlist)"
and add_subdirs ::
  "directory list \<Rightarrow> bool \<Rightarrow> song_id list \<Rightarrow> Pys2Playlist \<Rightarrow>
     error + (song_id list \<times> Pys2Playlist)" where
  "add_directory (Directory fs ds) recurse is_top surpress_emit s =
     (let files = filter (\<lambda>f. file_suffix f \<in> set (VALID_TYPES s)) fs;
          index_position = (if \<not> is_top then - 1 else Playlist_len s + 1)
      in case add_files files surpress_emit [] s of
           Inl e \<Rightarrow> Inl e
         | Inr (song_ids, s1) \<Rightarrow>
             (case (if recurse then add_subdirs ds recurse song_ids s1
                    else Inr (song_ids, s1)) of
                Inl e \<Rightarrow> Inl e
              | Inr (song_ids2, s2) \<Rightarrow>
                  Inr ((index_position, song_ids2),
                       if is_top \<and> surpress_emit
                       then emit (songs_added index_position song_ids2) s2 else s2)))"
| "add_subdirs [] recurse song_ids s = Inr (song_ids, s)"
| "add_subdirs (fdir # rest) recurse song_ids s =
     (case add_directory fdir recurse False True s of
        Inl e \<Rightarrow> Inl e
      | Inr ((_, sub_song_ids), s1) \<Rightarrow> add_subdirs rest recurse (song_ids @ sub_song_ids) s1)"

text \<open>\<^verbatim>\<open>Pys2Playlist.play\<close> (lines 92-105).\<close>

definition Pys2Playlist_play :: "Pys2Playlist \<Rightarrow> Pys2Playlist" where
  "Pys2Playlist_play s =
     (let new_song = (current s = None);
          s1 = Playlist_play s;
          s2 = (case current s1 of
                  None \<Rightarrow> s1
                | Some c \<Rightarrow>
                    if is_playing (songs s1 c)
                    then (emit (music_playing c) s1)\<lparr>ticker_active := True\<rparr>
                    else s1)
      in if new_song
         then (case current s2 of None \<Rightarrow> s2 | Some c \<Rightarrow> emit (song_changed c) s2)
         else s2)"

text \<open>
  \<^verbatim>\<open>Pys2Playlist.previous\<close> (lines 149-154). The method has no
  \<^verbatim>\<open>return\<close> statement: its value is \<^verbatim>\<open>None\<close>.
\<close>

definition Pys2Playlist_previous ::
  "nat \<Rightarrow> Pys2Playlist \<Rightarrow> song_id option \<times> Pys2Playlist" where
  "Pys2Playlist_previous draw s =
     (case Playlist_previous draw s of
        (None, s1) \<Rightarrow> (None, s1)
      | (Some r, s1) \<Rightarrow> (None, emit (song_changed r) s1))"

text \<open>\<^verbatim>\<open>Pys2Playlist.next\<close> (lines 156-163).\<close>

definition Pys2Playlist_next ::
  "nat \<Rightarrow> Pys2Playlist \<Rightarrow> song_id option \<times> Pys2Playlist" where
  "Pys2Playlist_next draw s =
     (case Playlist_next draw s of
        (None, s1) \<Rightarrow> (None, s1)
      | (Some r, s1) \<Rightarrow> (Some r, emit (song_changed r) s1))"

text \<open>
  \<^verbatim>\<open>Pys2Playlist.tick\<close> (lines 166-207). \<^verbatim>\<open>self.next()\<close> on line 201 is
  the method of this class, \<open>Pys2Playlist_next\<close>. The two tests of lines 183 and
  192 are the cases of \<open>fadein_song\<close>: set with no data left, or unset with an
  upcoming track. On line 197 \<^verbatim>\<open>self.current is not None\<close> holds, since the
  tick has returned on line 174 otherwise. The readings of the current song are
  taken once, on lines 169-170, before any call.
\<close>

definition Pys2Playlist_tick :: "nat \<Rightarrow> Pys2Playlist \<Rightarrow> Pys2Playlist" where
  "Pys2Playlist_tick draw s =
     (case current s of
        None \<Rightarrow> s\<lparr>ticker_active := False\<rparr>
      | Some c \<Rightarrow>
          let remaining = remaining_bytes (songs s c);
              remaining_secs = remaining_seconds (songs s c)
          in emit ticked
              (if play_mode s = loop_single \<and> remaining \<le> 0 then
                 emit (song_changed c) (Song_move2position_seconds c 0 s)
               else if fade_in s > 0 \<and> remaining_secs \<le> fade_in s then
                 (case fadein_song s of
                    Some f \<Rightarrow>
                      if remaining \<le> 0 then
                        emit (song_changed f)
                          ((Song_free_stream c (Song_stop c s))
                             \<lparr>current := Some f, fadein_song := None,
                              queue_position := queue_position s + 1\<rparr>)
                      else s
                  | None \<Rightarrow>
                      (case Playlist_upcoming draw s of
                         Some u \<Rightarrow> Song_play u (s\<lparr>fadein_song := Some u\<rparr>)
                       | None \<Rightarrow> s))
               else if remaining \<le> 0 then
                 (case Pys2Playlist_next draw (Song_free_stream c (Song_stop c s)) of
                    (None, s1) \<Rightarrow> s1\<lparr>current := None\<rparr>
                  | (Some n, s1) \<Rightarrow>
                      emit (song_changed n)
                        (Song_play n
                           (s1\<lparr>current := Some n,
                               queue_position := queue_position s1 + 1\<rparr>)))
               else s))"

subsection \<open>Direct playback\<close>

datatype play_error = IndexOutOfRange | NotFound

text \<open>
  Modelled from the spec: the step that \<^verbatim>\<open>Playlist.play_song_by_index\<close>,
  \<^verbatim>\<open>Playlist.play_song_by_id\<close> and \<^verbatim>\<open>Playlist.play_first\<close>
  (\<^verbatim>\<open>playlist.py\<close>) share once the target exists: it stops any current track,
  releasing its resources, sets \<open>queue_position\<close> and \<open>current\<close> to the target
  and starts it. The resources of a track are released before its reference is
  replaced.
\<close>

definition play_entry :: "nat \<Rightarrow> 'a Playlist_scheme \<Rightarrow> song_id \<times> 'a Playlist_scheme" where
  "play_entry i p =
     (let p1 = (case current p of
                  None \<Rightarrow> p
                | Some c \<Rightarrow> Song_free_stream c (Song_stop c p));
          song = queue p ! i
      in (song, Song_play song (p1\<lparr>queue_position := int i, current := Some song\<rparr>)))"

text \<open>
  Modelled from the spec: \<^verbatim>\<open>Playlist.play_song_by_index\<close>. It fails with
  \<^verbatim>\<open>IndexOutOfRange\<close> if the target does not exist and leaves the playlist
  unchanged then.
\<close>

definition Playlist_play_song_by_index ::
  "int \<Rightarrow> 'a Playlist_scheme \<Rightarrow> play_error + (song_id \<times> 'a Playlist_scheme)" where
  "Playlist_play_song_by_index song_index p =
     (if 0 \<le> song_index \<and> song_index < int (length (queue p))
      then Inr (play_entry (nat song_index) p)
      else Inl IndexOutOfRange)"

fun index_of :: "song_id \<Rightarrow> song_id list \<Rightarrow> nat option" where
  "index_of x [] = None"
| "index_of x (y # ys) =
     (if x = y then Some 0
      else (case index_of x ys of None \<Rightarrow> None | Some n \<Rightarrow> Some (Suc n)))"

text \<open>
  Modelled from the spec: \<^verbatim>\<open>Playlist.play_song_by_id\<close>. It fails with
  \<^verbatim>\<open>NotFound\<close> if no entry of the queue has the identity.
\<close>

definition Playlist_play_song_by_id ::
  "song_id \<Rightarrow> 'a Playlist_scheme \<Rightarrow> play_error + (song_id \<times> 'a Playlist_scheme)" where
  "Playlist_play_song_by_id song_id p =
     (case index_of song_id (queue p) of
        None \<Rightarrow> Inl NotFound
      | Some i \<Rightarrow> Inr (play_entry i p))"

text \<open>
  Modelled from the spec: \<^verbatim>\<open>Playlist.play_first\<close>. It sets the queue position
  to the first entry and plays it, whatever the current state; on an empty queue it
  returns \<^verbatim>\<open>None\<close>.
\<close>

definition Playlist_play_first ::
  "'a Playlist_scheme \<Rightarrow> song_id option \<times> 'a Playlist_scheme" where
  "Playlist_play_first p =
     (if queue p = [] then (None, p)
      else (case play_entry 0 p of (song, p1) \<Rightarrow> (Some song, p1)))"

text \<open>
  Modelled from the spec: \<^verbatim>\<open>Playlist.set_sequential\<close> and
  \<^verbatim>\<open>Playlist.set_randomize\<close>. They switch the mode; with
  \<^verbatim>\<open>restart_and_play\<close> playback is reset to the first entry and begins.
\<close>

definition Playlist_set_mode ::
  "PlaylistMode \<Rightarrow> bool \<Rightarrow> 'a Playlist_scheme \<Rightarrow> 'a Playlist_scheme" where
  "Playlist_set_mode m restart_and_play p =
     (if restart_and_play then snd (Playlist_play_first (p\<lparr>play_mode := m\<rparr>))
      else p\<lparr>play_mode := m\<rparr>)"

text \<open>\<^verbatim>\<open>Pys2Playlist.play_song_by_index\<close> (lines 107-114).\<close>

definition Pys2Playlist_play_song_by_index ::
  "int \<Rightarrow> Pys2Playlist \<Rightarrow> play_error + (song_id \<times> Pys2Playlist)" where
  "Pys2Playlist_play_song_by_index song_index s =
     (case Playlist_play_song_by_index song_index s of
        Inl e \<Rightarrow> Inl e
      | Inr (song, s1) \<Rightarrow>
          Inr (song, emit (music_playing song) (emit (song_changed song) s1)))"

text \<open>\<^verbatim>\<open>Pys2Playlist.play_song_by_id\<close> (lines 116-122).\<close>

definition Pys2Playlist_play_song_by_id ::
  "song_id \<Rightarrow> Pys2Playlist \<Rightarrow> play_error + (song_id \<times> Pys2Playlist)" where
  "Pys2Playlist_play_song_by_id song_id s =
     (case Playlist_play_song_by_id song_id s of
        Inl e \<Rightarrow> Inl e
      | Inr (song, s1) \<Rightarrow>
          Inr (song, emit (music_playing song) (emit (song_changed song) s1)))"

text \<open>\<^verbatim>\<open>Pys2Playlist.play_first\<close> (lines 125-130).\<close>

definition Pys2Playlist_play_first ::
  "Pys2Playlist \<Rightarrow> song_id option \<times> Pys2Playlist" where
  "Pys2Playlist_play_first s =
     (case Playlist_play_first s of
        (None, s1) \<Rightarrow> (None, s1)
      | (Some song, s1) \<Rightarrow>
          (Some song, emit (music_playing song) (emit (song_changed song) s1)))"

text \<open>
  \<^verbatim>\<open>Pys2Playlist.set_sequential\<close> and \<^verbatim>\<open>Pys2Playlist.set_randomize\<close>
  (lines 210-216).
\<close>

definition Pys2Playlist_set_sequential :: "bool \<Rightarrow> Pys2Playlist \<Rightarrow> Pys2Playlist" where
  "Pys2Playlist_set_sequential restart_and_play s =
     emit queue_changed (Playlist_set_mode sequential restart_and_play s)"

definition Pys2Playlist_set_randomize :: "bool \<Rightarrow> Pys2Playlist \<Rightarrow> Pys2Playlist" where
  "Pys2Playlist_set_randomize restart_and_play s =
     emit queue_changed (Playlist_set_mode randomize restart_and_play s)"

text \<open>The signals and the handle calls that an operation adds to a state.\<close>

definition new_signals :: "Pys2Playlist \<Rightarrow> Pys2Playlist \<Rightarrow> signal list" where
  "new_signals s s' = drop (length (emitted s)) (emitted s')"

definition new_calls :: "Pys2Playlist \<Rightarrow> Pys2Playlist \<Rightarrow> handle_call list" where
  "new_calls s s' = drop (length (handle_calls s)) (handle_calls s')"

text \<open>
  The ticker fires \<^verbatim>\<open>tick\<close> again and again; between two ticks playback goes
  on and the handles report new readings. A run is given by the readings (and the
  random draw) that each tick finds.
\<close>

fun run_ticks :: "(nat \<times> (song_id \<Rightarrow> Song)) list \<Rightarrow> Pys2Playlist \<Rightarrow> Pys2Playlist" where
  "run_ticks [] s = s"
| "run_ticks ((draw, readings) # rest) s =
     run_ticks rest (Pys2Playlist_tick draw (s\<lparr>songs := readings\<rparr>))"

fun is_free_stream :: "handle_call \<Rightarrow> bool" where
  "is_free_stream (FreeStream _) = True"
| "is_free_stream _ = False"

text \<open>
  The \<^verbatim>\<open>free_stream\<close> calls that an operation adds, and the tracks that the
  playlist holds a reference to, as \<open>current\<close> or as \<open>fadein_song\<close>.
\<close>

definition frees :: "Pys2Playlist \<Rightarrow> Pys2Playlist \<Rightarrow> handle_call list" where
  "frees s s' = filter is_free_stream (new_calls s s')"

definition owned :: "'a Playlist_scheme \<Rightarrow> song_id set" where
  "owned p = set_option (current p) \<union> set_option (fadein_song p)"

fun is_songs_added :: "signal \<Rightarrow> bool" where
  "is_songs_added (songs_added _ _) = True"
| "is_songs_added _ = False"

section \<open>Concrete playlists\<close>

text \<open>Readings of the two tracks \<open>T1\<close> and \<open>T2\<close> at several moments.\<close>

definition T1_playing :: "song_id \<Rightarrow> Song" where
  "T1_playing i =
     (if i = ''T1'' then \<lparr>remaining_bytes = 1000, remaining_seconds = 2, is_playing = True\<rparr>
      else \<lparr>remaining_bytes = 3000, remaining_seconds = 3, is_playing = False\<rparr>)"

definition T1_near_end :: "song_id \<Rightarrow> Song" where
  "T1_near_end i =
     (if i = ''T1'' then \<lparr>remaining_bytes = 500, remaining_seconds = 1, is_playing = True\<rparr>
      else \<lparr>remaining_bytes = 3000, remaining_seconds = 3, is_playing = False\<rparr>)"

definition T1_ended :: "song_id \<Rightarrow> Song" where
  "T1_ended i =
     (if i = ''T1'' then \<lparr>remaining_bytes = 0, remaining_seconds = 0, is_playing = True\<rparr>
      else \<lparr>remaining_bytes = 3000, remaining_seconds = 3, is_playing = False\<rparr>)"

text \<open>The queue \<open>[T1, T2]\<close>, sequential, fade disabled, \<open>T1\<close> current.\<close>

definition two_tracks :: "(song_id \<Rightarrow> Song) \<Rightarrow> Pys2Playlist" where
  "two_tracks readings =
     \<lparr>VALID_TYPES = [''.mp3''], queue = [''T1'', ''T2''], queue_position = 0,
      play_mode = sequential, fade_in = 0, current = Some ''T1'', fadein_song = None,
      songs = readings, handle_calls = [], emitted = [], ticker_active = True\<rparr>"

text \<open>Scenario A of the spec at the tick on which \<open>T1\<close> has no data left.\<close>

definition scenario_A :: Pys2Playlist where
  "scenario_A = two_tracks T1_ended"

text \<open>Scenario B: a fade window of one second; before, during and at the end of the fade.\<close>

definition scenario_B_begin :: Pys2Playlist where
  "scenario_B_begin = (two_tracks T1_near_end)\<lparr>fade_in := 1\<rparr>"

definition scenario_B_fading :: Pys2Playlist where
  "scenario_B_fading = (two_tracks T1_near_end)\<lparr>fade_in := 1, fadein_song := Some ''T2''\<rparr>"

definition scenario_B_end :: Pys2Playlist where
  "scenario_B_end = (two_tracks T1_ended)\<lparr>fade_in := 1, fadein_song := Some ''T2''\<rparr>"

text \<open>
  LoopSingle with \<open>T1\<close> at its end, inside a fade window: once with a fade under
  way and once with none.
\<close>

definition loop_single_fading :: Pys2Playlist where
  "loop_single_fading =
     (two_tracks T1_ended)\<lparr>play_mode := loop_single, fade_in := 1, fadein_song := Some ''T2''\<rparr>"

definition loop_single_no_fade :: Pys2Playlist where
  "loop_single_no_fade = (two_tracks T1_ended)\<lparr>play_mode := loop_single, fade_in := 1\<rparr>"

text \<open>A ticker that is still active with no current song.\<close>

definition no_song :: Pys2Playlist where
  "no_song = (two_tracks T1_playing)\<lparr>current := None\<rparr>"

definition playing_T1 :: Pys2Playlist where
  "playing_T1 = two_tracks T1_playing"

definition at_T2 :: Pys2Playlist where
  "at_T2 = (two_tracks T1_playing)\<lparr>queue_position := 1, current := Some ''T2''\<rparr>"

text \<open>An empty playlist and a directory with one song and one subdirectory with one song.\<close>

definition empty_playlist :: Pys2Playlist where
  "empty_playlist = (two_tracks T1_playing)\<lparr>queue := [], current := None\<rparr>"

definition music_dir :: directory where
  "music_dir =
     Directory [File ''.mp3'' (Track ''a'')] [Directory [File ''.mp3'' (Track ''b'')] []]"

text \<open>
  Two ticks of Scenario B once the fade is under way: at the first \<open>T1\<close> still has
  data left, at the second it has none.
\<close>

definition fade_run :: "(nat \<times> (song_id \<Rightarrow> Song)) list" where
  "fade_run = [(0, T1_near_end), (0, T1_ended)]"

section \<open>Auxiliary facts\<close>

lemmas handle_defs =
  Song_play_def Song_stop_def Song_free_stream_def Song_move2position_seconds_def

lemmas scenario_defs =
  two_tracks_def T1_playing_def T1_near_end_def T1_ended_def scenario_A_def
  scenario_B_begin_def scenario_B_fading_def scenario_B_end_def loop_single_fading_def
  loop_single_no_fade_def no_song_def playing_T1_def at_T2_def empty_playlist_def

text \<open>The queue resolution of the base class leaves the playlist as it is.\<close>

lemma Playlist_next_eq: "Playlist_next draw p = (fst (Playlist_next draw p), p)"
  by (simp add: Playlist_next_def split: PlaylistMode.splits)

lemma Playlist_previous_eq: "Playlist_previous draw p = (fst (Playlist_previous draw p), p)"
  by (simp add: Playlist_previous_def split: PlaylistMode.splits)

lemma Pys2Playlist_next_eq:
  "Pys2Playlist_next draw s =
     (case fst (Playlist_next draw s) of
        None \<Rightarrow> (None, s)
      | Some r \<Rightarrow> (Some r, emit (song_changed r) s))"
  by (subst Pys2Playlist_next_def, subst Playlist_next_eq) (simp split: option.splits)

text \<open>
  What one tick does to the signals, the queue position and \<open>fadein_song\<close>,
  whichever branch it takes.
\<close>

lemma tick_no_current:
  "current s = None \<Longrightarrow> Pys2Playlist_tick draw s = s\<lparr>ticker_active := False\<rparr>"
  by (simp add: Pys2Playlist_tick_def)

lemma tick_emitted_shape:
  assumes "current s = Some c"
  shows "\<exists>pre. emitted (Pys2Playlist_tick draw s) = emitted s @ pre @ [ticked]
           \<and> (pre = [] \<or> (\<exists>x. pre = [song_changed x] \<or> pre = [song_changed x, song_changed x]))"
  using assms
  by (auto simp add: Pys2Playlist_tick_def Pys2Playlist_next_eq emit_def handle_defs Let_def
      split: option.splits)

lemma tick_queue_position:
  "queue_position (Pys2Playlist_tick draw s) = queue_position s
   \<or> queue_position (Pys2Playlist_tick draw s) = queue_position s + 1"
  by (auto simp add: Pys2Playlist_tick_def Pys2Playlist_next_eq emit_def handle_defs Let_def
      split: option.splits)

lemma tick_fadein_song:
  assumes "fadein_song s = Some f"
  shows "fadein_song (Pys2Playlist_tick draw s) = Some f
       \<or> fadein_song (Pys2Playlist_tick draw s) = None
         \<and> current (Pys2Playlist_tick draw s) = Some f"
  using assms
  by (auto simp add: Pys2Playlist_tick_def Pys2Playlist_next_eq emit_def handle_defs Let_def
      split: option.splits)

lemma run_ticks_step:
  "run_ticks (e # env) s = run_ticks env (Pys2Playlist_tick (fst e) (s\<lparr>songs := snd e\<rparr>))"
  by (cases e) simp

text \<open>The signals of \<open>play()\<close>, \<open>previous()\<close> and \<open>next()\<close>.\<close>

lemma Pys2Playlist_previous_eq:
  "Pys2Playlist_previous draw s =
     (case fst (Playlist_previous draw s) of
        None \<Rightarrow> (None, s)
      | Some r \<Rightarrow> (None, emit (song_changed r) s))"
  by (subst Pys2Playlist_previous_def, subst Playlist_previous_eq) (simp split: option.splits)

lemma play_playing:
  assumes "current s = Some c" and "is_playing (songs s c)"
  shows "Pys2Playlist_play s =
           (Song_play c s)\<lparr>emitted := emitted s @ [music_playing c], ticker_active := True\<rparr>"
  using assms by (simp add: Pys2Playlist_play_def Playlist_play_def emit_def handle_defs)

lemma play_emitted_shape:
  "\<exists>new. emitted (Pys2Playlist_play s) = emitted s @ new
     \<and> (new = [] \<and> current (Pys2Playlist_play s) = current s
        \<or> (\<exists>c. current s = Some c \<and> new = [music_playing c])
        \<or> (\<exists>c. current s = None \<and> current (Pys2Playlist_play s) = Some c
              \<and> new = [music_playing c, song_changed c]))"
  by (cases "current s")
    (auto simp add: Pys2Playlist_play_def Playlist_play_def emit_def handle_defs Let_def)

lemma previous_signals:
  "new_signals s (snd (Pys2Playlist_previous draw s))
     = (case fst (Playlist_previous draw s) of None \<Rightarrow> [] | Some r \<Rightarrow> [song_changed r])
   \<and> new_calls s (snd (Pys2Playlist_previous draw s)) = []
   \<and> fst (Pys2Playlist_previous draw s) = None"
  by (simp add: Pys2Playlist_previous_eq new_signals_def new_calls_def emit_def
      split: option.splits)

lemma next_signals:
  "new_signals s (snd (Pys2Playlist_next draw s))
     = (case fst (Playlist_next draw s) of None \<Rightarrow> [] | Some r \<Rightarrow> [song_changed r])
   \<and> new_calls s (snd (Pys2Playlist_next draw s)) = []
   \<and> fst (Pys2Playlist_next draw s) = fst (Playlist_next draw s)"
  by (simp add: Pys2Playlist_next_eq new_signals_def new_calls_def emit_def
      split: option.splits)

section \<open>The tick callback\<close>

text \<open>
  Claim C1. The claim: every tick emits \<open>song_changed\<close> at most once and advances
  \<open>queue_position\<close> by at most one; in Scenario A the tick on which the first
  track's remaining data reaches 0 emits exactly one \<open>song_changed\<close> for the second
  track. On the code, that tick takes the end-of-track branch, whose
  \<^verbatim>\<open>self.next()\<close> is \<open>Pys2Playlist_next\<close> and emits \<open>song_changed\<close> for
  \<open>T2\<close>; line 205 then emits it a second time. The track becomes current and the
  queue position advances by one.
\<close>

theorem C1_tick_end_of_track_emits_song_changed_twice:
  "new_signals scenario_A (Pys2Playlist_tick 0 scenario_A)
     = [song_changed ''T2'', song_changed ''T2'', ticked]
   \<and> current (Pys2Playlist_tick 0 scenario_A) = Some ''T2''
   \<and> queue_position (Pys2Playlist_tick 0 scenario_A) = 1"
  by (simp add: new_signals_def Pys2Playlist_tick_def Pys2Playlist_next_def Playlist_next_def
      entry_at_def emit_def handle_defs scenario_defs)

text \<open>
  Claim C2, as stated: every tick, also the one that finds no current song, emits
  \<open>ticked\<close> exactly once. A tick with no current song stops the ticker and returns
  at once (lines 171-174): it emits nothing.
\<close>

theorem C2_ticked_counterexample:
  "current no_song = None
   \<and> new_signals no_song (Pys2Playlist_tick 0 no_song) = []
   \<and> count_list (new_signals no_song (Pys2Playlist_tick 0 no_song)) ticked \<noteq> 1"
  by (simp add: new_signals_def Pys2Playlist_tick_def scenario_defs)

text \<open>
  Claim C2, amended: a tick that finds a current song emits \<open>ticked\<close> exactly
  once, whichever branch it takes, and \<open>ticked\<close> is the last signal of the tick; a
  tick that finds no current song emits no signal and stops the ticker.
\<close>

theorem C2_ticked_once_when_current:
  "(current s \<noteq> None \<longrightarrow>
      count_list (new_signals s (Pys2Playlist_tick draw s)) ticked = 1
      \<and> last (emitted (Pys2Playlist_tick draw s)) = ticked)
   \<and> (current s = None \<longrightarrow>
      new_signals s (Pys2Playlist_tick draw s) = []
      \<and> \<not> ticker_active (Pys2Playlist_tick draw s))"
proof (cases "current s")
  case None
  then show ?thesis
    by (simp add: tick_no_current new_signals_def)
next
  case (Some c)
  from tick_emitted_shape [OF Some, of draw]
  obtain pre where e: "emitted (Pys2Playlist_tick draw s) = emitted s @ pre @ [ticked]"
    and pre: "pre = [] \<or> (\<exists>x. pre = [song_changed x] \<or> pre = [song_changed x, song_changed x])"
    by blast
  from pre have "count_list pre ticked = 0"
    by auto
  with e Some show ?thesis
    by (simp add: new_signals_def)
qed

theorem C2_ticked_once_witness:
  "current scenario_A \<noteq> None
   \<and> count_list (new_signals scenario_A (Pys2Playlist_tick 0 scenario_A)) ticked = 1
   \<and> last (emitted (Pys2Playlist_tick 0 scenario_A)) = ticked
   \<and> current no_song = None
   \<and> new_signals no_song (Pys2Playlist_tick 0 no_song) = []
   \<and> \<not> ticker_active (Pys2Playlist_tick 0 no_song)"
proof -
  have a: "current scenario_A \<noteq> None"
    by (simp add: scenario_defs)
  have b: "current no_song = None"
    by (simp add: scenario_defs)
  from a b C2_ticked_once_when_current [of scenario_A 0]
    C2_ticked_once_when_current [of no_song 0]
  show ?thesis
    by blast
qed

text \<open>
  Claim C3, as stated: on any tick with the fade window active
  (\<open>0 < fade_in\<close> and \<open>remaining_seconds \<le> fade_in\<close>), \<open>fadein_song\<close> set and no
  data left in the current song, the tick completes the fade. In LoopSingle mode
  the repeat branch of line 176 comes first: the tick seeks the current song to 0
  and leaves \<open>current\<close>, \<open>fadein_song\<close> and \<open>queue_position\<close> as they were.
\<close>

theorem C3_fade_completion_counterexample:
  "current loop_single_fading = Some ''T1''
   \<and> 0 < fade_in loop_single_fading
   \<and> remaining_seconds (songs loop_single_fading ''T1'') \<le> fade_in loop_single_fading
   \<and> fadein_song loop_single_fading = Some ''T2''
   \<and> remaining_bytes (songs loop_single_fading ''T1'') \<le> 0
   \<and> current (Pys2Playlist_tick 0 loop_single_fading) = Some ''T1''
   \<and> fadein_song (Pys2Playlist_tick 0 loop_single_fading) = Some ''T2''
   \<and> queue_position (Pys2Playlist_tick 0 loop_single_fading)
       = queue_position loop_single_fading
   \<and> new_calls loop_single_fading (Pys2Playlist_tick 0 loop_single_fading)
       = [Move2PositionSeconds ''T1'' 0]
   \<and> new_signals loop_single_fading (Pys2Playlist_tick 0 loop_single_fading)
       = [song_changed ''T1'', ticked]"
  by (simp add: new_calls_def new_signals_def Pys2Playlist_tick_def emit_def handle_defs
      scenario_defs)

text \<open>
  Claim C3, amended: on any tick with a play mode other than LoopSingle, the fade
  window active, \<open>fadein_song\<close> set and no data left in the current song, the tick
  stops the current song and frees its stream, makes \<open>fadein_song\<close> the current
  song, clears \<open>fadein_song\<close>, advances \<open>queue_position\<close> by exactly one and
  emits one \<open>song_changed\<close> (for the new current song) followed by \<open>ticked\<close>;
  these are all the handle calls and signals of the tick.
\<close>

theorem C3_fade_completion:
  assumes "current s = Some c" and "play_mode s \<noteq> loop_single"
    and "0 < fade_in s" and "remaining_seconds (songs s c) \<le> fade_in s"
    and "fadein_song s = Some f" and "remaining_bytes (songs s c) \<le> 0"
  shows "handle_calls (Pys2Playlist_tick draw s) = handle_calls s @ [Stop c, FreeStream c]
       \<and> current (Pys2Playlist_tick draw s) = Some f
       \<and> fadein_song (Pys2Playlist_tick draw s) = None
       \<and> queue_position (Pys2Playlist_tick draw s) = queue_position s + 1
       \<and> emitted (Pys2Playlist_tick draw s) = emitted s @ [song_changed f, ticked]"
  using assms by (simp add: Pys2Playlist_tick_def emit_def handle_defs)

theorem C3_fade_completion_witness:
  "current scenario_B_end = Some ''T1'' \<and> play_mode scenario_B_end \<noteq> loop_single
   \<and> 0 < fade_in scenario_B_end
   \<and> remaining_seconds (songs scenario_B_end ''T1'') \<le> fade_in scenario_B_end
   \<and> fadein_song scenario_B_end = Some ''T2''
   \<and> remaining_bytes (songs scenario_B_end ''T1'') \<le> 0
   \<and> handle_calls (Pys2Playlist_tick 0 scenario_B_end) = [Stop ''T1'', FreeStream ''T1'']
   \<and> current (Pys2Playlist_tick 0 scenario_B_end) = Some ''T2''
   \<and> fadein_song (Pys2Playlist_tick 0 scenario_B_end) = None
   \<and> queue_position (Pys2Playlist_tick 0 scenario_B_end) = 1
   \<and> emitted (Pys2Playlist_tick 0 scenario_B_end) = [song_changed ''T2'', ticked]"
proof -
  have h: "current scenario_B_end = Some ''T1''" "play_mode scenario_B_end \<noteq> loop_single"
    "0 < fade_in scenario_B_end"
    "remaining_seconds (songs scenario_B_end ''T1'') \<le> fade_in scenario_B_end"
    "fadein_song scenario_B_end = Some ''T2''"
    "remaining_bytes (songs scenario_B_end ''T1'') \<le> 0"
    by (simp_all add: scenario_defs)
  have v: "handle_calls scenario_B_end = []" "emitted scenario_B_end = []"
    "queue_position scenario_B_end = 0"
    by (simp_all add: scenario_defs)
  from C3_fade_completion [OF h, of 0] h v show ?thesis
    by simp
qed

text \<open>
  Claim C4, as stated: on any tick with the fade window active, \<open>fadein_song\<close>
  unset and a next track available, the tick starts the fade and emits no
  \<open>song_changed\<close>. In LoopSingle mode with no data left in the current song the
  repeat branch comes first: no fade starts and \<open>song_changed\<close> is emitted.
\<close>

theorem C4_begin_fade_counterexample:
  "current loop_single_no_fade = Some ''T1''
   \<and> 0 < fade_in loop_single_no_fade
   \<and> remaining_seconds (songs loop_single_no_fade ''T1'') \<le> fade_in loop_single_no_fade
   \<and> fadein_song loop_single_no_fade = None
   \<and> Playlist_upcoming 0 loop_single_no_fade = Some ''T1''
   \<and> fadein_song (Pys2Playlist_tick 0 loop_single_no_fade) = None
   \<and> new_calls loop_single_no_fade (Pys2Playlist_tick 0 loop_single_no_fade)
       = [Move2PositionSeconds ''T1'' 0]
   \<and> new_signals loop_single_no_fade (Pys2Playlist_tick 0 loop_single_no_fade)
       = [song_changed ''T1'', ticked]"
  by (simp add: new_calls_def new_signals_def Pys2Playlist_tick_def emit_def handle_defs
      Playlist_upcoming_def Playlist_next_def entry_at_def scenario_defs)

text \<open>
  Claim C4, amended: on any tick with the fade window active, \<open>fadein_song\<close>
  unset and an upcoming track available, unless the mode is LoopSingle and the
  current song has no data left, the tick sets \<open>fadein_song\<close> to the upcoming
  track and starts its playback; \<open>current\<close> and \<open>queue_position\<close> are unchanged
  and the only signal of the tick is \<open>ticked\<close>.
\<close>

theorem C4_begin_fade:
  assumes "current s = Some c"
    and "\<not> (play_mode s = loop_single \<and> remaining_bytes (songs s c) \<le> 0)"
    and "0 < fade_in s" and "remaining_seconds (songs s c) \<le> fade_in s"
    and "fadein_song s = None" and "Playlist_upcoming draw s = Some u"
  shows "fadein_song (Pys2Playlist_tick draw s) = Some u
       \<and> handle_calls (Pys2Playlist_tick draw s) = handle_calls s @ [Play u]
       \<and> current (Pys2Playlist_tick draw s) = current s
       \<and> queue_position (Pys2Playlist_tick draw s) = queue_position s
       \<and> emitted (Pys2Playlist_tick draw s) = emitted s @ [ticked]"
  using assms by (auto simp add: Pys2Playlist_tick_def emit_def handle_defs)

theorem C4_begin_fade_witness:
  "current scenario_B_begin = Some ''T1''
   \<and> \<not> (play_mode scenario_B_begin = loop_single
        \<and> remaining_bytes (songs scenario_B_begin ''T1'') \<le> 0)
   \<and> 0 < fade_in scenario_B_begin
   \<and> remaining_seconds (songs scenario_B_begin ''T1'') \<le> fade_in scenario_B_begin
   \<and> fadein_song scenario_B_begin = None
   \<and> Playlist_upcoming 0 scenario_B_begin = Some ''T2''
   \<and> fadein_song (Pys2Playlist_tick 0 scenario_B_begin) = Some ''T2''
   \<and> handle_calls (Pys2Playlist_tick 0 scenario_B_begin) = [Play ''T2'']
   \<and> current (Pys2Playlist_tick 0 scenario_B_begin) = Some ''T1''
   \<and> queue_position (Pys2Playlist_tick 0 scenario_B_begin) = 0
   \<and> emitted (Pys2Playlist_tick 0 scenario_B_begin) = [ticked]"
proof -
  have h: "current scenario_B_begin = Some ''T1''"
    "\<not> (play_mode scenario_B_begin = loop_single
        \<and> remaining_bytes (songs scenario_B_begin ''T1'') \<le> 0)"
    "0 < fade_in scenario_B_begin"
    "remaining_seconds (songs scenario_B_begin ''T1'') \<le> fade_in scenario_B_begin"
    "fadein_song scenario_B_begin = None"
    "Playlist_upcoming 0 scenario_B_begin = Some ''T2''"
    by (simp_all add: scenario_defs Playlist_upcoming_def Playlist_next_def entry_at_def)
  have v: "handle_calls scenario_B_begin = []" "emitted scenario_B_begin = []"
    "queue_position scenario_B_begin = 0"
    by (simp_all add: scenario_defs)
  from C4_begin_fade [OF h] h v show ?thesis
    by simp
qed

text \<open>
  Claim C5: on any tick in LoopSingle mode with no data left in the current song,
  the tick seeks the current song to position 0 and emits one \<open>song_changed\<close>
  for it; \<open>queue_position\<close> and \<open>current\<close> are unchanged. Nothing is assumed
  about \<open>fade_in\<close> and \<open>fadein_song\<close>: the repeat branch has priority over the
  fade and end-of-track branches, and it leaves \<open>fadein_song\<close> as it was.
\<close>

theorem C5_repeat_rule:
  assumes "current s = Some c" and "play_mode s = loop_single"
    and "remaining_bytes (songs s c) \<le> 0"
  shows "handle_calls (Pys2Playlist_tick draw s) = handle_calls s @ [Move2PositionSeconds c 0]
       \<and> emitted (Pys2Playlist_tick draw s) = emitted s @ [song_changed c, ticked]
       \<and> queue_position (Pys2Playlist_tick draw s) = queue_position s
       \<and> current (Pys2Playlist_tick draw s) = Some c
       \<and> fadein_song (Pys2Playlist_tick draw s) = fadein_song s"
  using assms by (simp add: Pys2Playlist_tick_def emit_def handle_defs)

theorem C5_repeat_rule_witness:
  "current loop_single_fading = Some ''T1'' \<and> play_mode loop_single_fading = loop_single
   \<and> remaining_bytes (songs loop_single_fading ''T1'') \<le> 0
   \<and> 0 < fade_in loop_single_fading
   \<and> remaining_seconds (songs loop_single_fading ''T1'') \<le> fade_in loop_single_fading
   \<and> handle_calls (Pys2Playlist_tick 0 loop_single_fading) = [Move2PositionSeconds ''T1'' 0]
   \<and> emitted (Pys2Playlist_tick 0 loop_single_fading) = [song_changed ''T1'', ticked]
   \<and> queue_position (Pys2Playlist_tick 0 loop_single_fading) = 0
   \<and> current (Pys2Playlist_tick 0 loop_single_fading) = Some ''T1''
   \<and> fadein_song (Pys2Playlist_tick 0 loop_single_fading) = Some ''T2''"
proof -
  have h: "current loop_single_fading = Some ''T1''"
    "play_mode loop_single_fading = loop_single"
    "remaining_bytes (songs loop_single_fading ''T1'') \<le> 0"
    by (simp_all add: scenario_defs)
  have v: "handle_calls loop_single_fading = []" "emitted loop_single_fading = []"
    "queue_position loop_single_fading = 0" "fadein_song loop_single_fading = Some ''T2''"
    "0 < fade_in loop_single_fading"
    "remaining_seconds (songs loop_single_fading ''T1'') \<le> fade_in loop_single_fading"
    by (simp_all add: scenario_defs)
  from C5_repeat_rule [OF h, of 0] h v show ?thesis
    by simp
qed

text \<open>
  Claim C6: once \<open>fadein_song\<close> is set to a track, no later tick assigns it again
  until it has been cleared by promotion to \<open>current\<close>. Along any run of ticks,
  whatever the handles report in between, \<open>fadein_song\<close> either stays that track
  throughout, or it stays that track up to the first tick that clears it, and that
  tick makes the track the current song.
\<close>

theorem C6_one_fade_in_flight:
  assumes "fadein_song s = Some f"
  shows "(\<forall>k \<le> length env. fadein_song (run_ticks (take k env) s) = Some f)
       \<or> (\<exists>k < length env.
             (\<forall>j \<le> k. fadein_song (run_ticks (take j env) s) = Some f)
             \<and> fadein_song (run_ticks (take (Suc k) env) s) = None
             \<and> current (run_ticks (take (Suc k) env) s) = Some f)"
  using assms
proof (induction env arbitrary: s)
  case Nil
  then show ?case by simp
next
  case (Cons e env)
  let ?s1 = "Pys2Playlist_tick (fst e) (s\<lparr>songs := snd e\<rparr>)"
  have start: "fadein_song (s\<lparr>songs := snd e\<rparr>) = Some f"
    using Cons.prems by simp
  from tick_fadein_song [OF start, of "fst e"]
  consider (kept) "fadein_song ?s1 = Some f"
    | (promoted) "fadein_song ?s1 = None" "current ?s1 = Some f"
    by auto
  then show ?case
  proof cases
    case promoted
    have "(\<forall>j \<le> 0. fadein_song (run_ticks (take j (e # env)) s) = Some f)"
      using Cons.prems by simp
    moreover have "fadein_song (run_ticks (take (Suc 0) (e # env)) s) = None"
      "current (run_ticks (take (Suc 0) (e # env)) s) = Some f"
      using promoted by (simp_all add: run_ticks_step)
    ultimately show ?thesis
      by (intro disjI2 exI [of _ 0]) simp
  next
    case kept
    from Cons.IH [OF kept]
    consider (all) "\<forall>k \<le> length env. fadein_song (run_ticks (take k env) ?s1) = Some f"
      | (until) k where "k < length env"
          "\<forall>j \<le> k. fadein_song (run_ticks (take j env) ?s1) = Some f"
          "fadein_song (run_ticks (take (Suc k) env) ?s1) = None"
          "current (run_ticks (take (Suc k) env) ?s1) = Some f"
      by blast
    then show ?thesis
    proof cases
      case all
      have "fadein_song (run_ticks (take k (e # env)) s) = Some f"
        if "k \<le> length (e # env)" for k
      proof (cases k)
        case 0
        then show ?thesis using Cons.prems by simp
      next
        case (Suc k')
        with that all show ?thesis by (simp add: run_ticks_step)
      qed
      then show ?thesis by blast
    next
      case until
      have "fadein_song (run_ticks (take j (e # env)) s) = Some f" if "j \<le> Suc k" for j
      proof (cases j)
        case 0
        then show ?thesis using Cons.prems by simp
      next
        case (Suc j')
        with that until(2) show ?thesis by (simp add: run_ticks_step)
      qed
      moreover have "fadein_song (run_ticks (take (Suc (Suc k)) (e # env)) s) = None"
        "current (run_ticks (take (Suc (Suc k)) (e # env)) s) = Some f"
        using until(3,4) by (simp_all add: run_ticks_step)
      moreover have "Suc k < length (e # env)"
        using until(1) by simp
      ultimately show ?thesis
        by blast
    qed
  qed
qed

theorem C6_one_fade_in_flight_witness:
  "fadein_song scenario_B_fading = Some ''T2''
   \<and> ((\<forall>k \<le> length fade_run.
          fadein_song (run_ticks (take k fade_run) scenario_B_fading) = Some ''T2'')
      \<or> (\<exists>k < length fade_run.
            (\<forall>j \<le> k. fadein_song (run_ticks (take j fade_run) scenario_B_fading) = Some ''T2'')
            \<and> fadein_song (run_ticks (take (Suc k) fade_run) scenario_B_fading) = None
            \<and> current (run_ticks (take (Suc k) fade_run) scenario_B_fading) = Some ''T2''))
   \<and> fadein_song (run_ticks (take 1 fade_run) scenario_B_fading) = Some ''T2''
   \<and> fadein_song (run_ticks fade_run scenario_B_fading) = None
   \<and> current (run_ticks fade_run scenario_B_fading) = Some ''T2''"
proof -
  have h: "fadein_song scenario_B_fading = Some ''T2''"
    by (simp add: scenario_defs)
  have r: "fadein_song (run_ticks (take 1 fade_run) scenario_B_fading) = Some ''T2''"
    "fadein_song (run_ticks fade_run scenario_B_fading) = None"
    "current (run_ticks fade_run scenario_B_fading) = Some ''T2''"
    by (simp_all add: fade_run_def Pys2Playlist_tick_def emit_def handle_defs scenario_defs)
  from C6_one_fade_in_flight [OF h, of fade_run] h r show ?thesis
    by simp
qed

section \<open>Release of playback resources\<close>

text \<open>
  The two ways a tick with a current song \<open>c\<close> can go: either it releases \<open>c\<close>,
  which happens exactly on the fade-completion and the end-of-track paths, or it
  releases nothing and keeps \<open>c\<close> as the current song.
\<close>

lemma tick_release_paths:
  assumes cur: "current s = Some c"
  shows "frees s (Pys2Playlist_tick draw s) = [FreeStream c]
         \<and> (remaining_bytes (songs s c) \<le> 0 \<and> play_mode s \<noteq> loop_single
            \<and> (0 < fade_in s \<and> remaining_seconds (songs s c) \<le> fade_in s
                \<longrightarrow> fadein_song s \<noteq> None))
         \<and> (0 < fade_in s \<and> remaining_seconds (songs s c) \<le> fade_in s
              \<longrightarrow> current (Pys2Playlist_tick draw s) = fadein_song s
                  \<and> fadein_song (Pys2Playlist_tick draw s) = None)
         \<and> (\<not> (0 < fade_in s \<and> remaining_seconds (songs s c) \<le> fade_in s)
              \<longrightarrow> current (Pys2Playlist_tick draw s) = Playlist_upcoming draw s
                  \<and> fadein_song (Pys2Playlist_tick draw s) = fadein_song s)
       \<or> frees s (Pys2Playlist_tick draw s) = []
         \<and> \<not> (remaining_bytes (songs s c) \<le> 0 \<and> play_mode s \<noteq> loop_single
               \<and> (0 < fade_in s \<and> remaining_seconds (songs s c) \<le> fade_in s
                   \<longrightarrow> fadein_song s \<noteq> None))
         \<and> current (Pys2Playlist_tick draw s) = Some c
         \<and> (fadein_song (Pys2Playlist_tick draw s) = fadein_song s \<or> fadein_song s = None)"
proof -
  have nxt: "fst (Playlist_next draw (Song_free_stream c (Song_stop c s)))
               = Playlist_upcoming draw s"
    by (simp add: Playlist_upcoming_def Playlist_next_def entry_at_def random_entry_def
        handle_defs Let_def split: PlaylistMode.splits)
  note defs = frees_def new_calls_def Pys2Playlist_tick_def Pys2Playlist_next_eq emit_def
    handle_defs Let_def
  show ?thesis
  proof (cases "play_mode s = loop_single \<and> remaining_bytes (songs s c) \<le> 0")
    case True
    with cur show ?thesis
      by (auto simp add: defs)
  next
    case no_repeat: False
    show ?thesis
    proof (cases "0 < fade_in s \<and> remaining_seconds (songs s c) \<le> fade_in s")
      case fade: True
      show ?thesis
      proof (cases "fadein_song s")
        case no_fadein: None
        show ?thesis
        proof (cases "Playlist_upcoming draw s")
          case None
          with cur no_repeat fade no_fadein show ?thesis
            by (auto simp add: defs)
        next
          case (Some u)
          with cur no_repeat fade no_fadein show ?thesis
            by (auto simp add: defs)
        qed
      next
        case fadein: (Some f)
        show ?thesis
        proof (cases "remaining_bytes (songs s c) \<le> 0")
          case True
          with cur no_repeat fade fadein show ?thesis
            by (auto simp add: defs)
        next
          case False
          with cur no_repeat fade fadein show ?thesis
            by (auto simp add: defs)
        qed
      qed
    next
      case no_fade: False
      show ?thesis
      proof (cases "remaining_bytes (songs s c) \<le> 0")
        case ended: True
        show ?thesis
        proof (cases "fst (Playlist_next draw (Song_free_stream c (Song_stop c s)))")
          case None
          with cur no_repeat no_fade ended nxt show ?thesis
            by (auto simp add: defs)
        next
          case (Some n)
          with cur no_repeat no_fade ended nxt show ?thesis
            by (auto simp add: defs)
        qed
      next
        case False
        with cur no_repeat no_fade show ?thesis
          by (auto simp add: defs)
      qed
    qed
  qed
qed

lemma play_entry_release:
  assumes "play_entry i p = (song, p1)"
  shows "handle_calls p1 =
           handle_calls p
           @ (case current p of None \<Rightarrow> [] | Some c \<Rightarrow> [Stop c, FreeStream c]) @ [Play song]"
    and "current p1 = Some song" and "fadein_song p1 = fadein_song p"
  using assms by (auto simp add: play_entry_def handle_defs Let_def split: option.splits)

lemma frees_append:
  "handle_calls s' = handle_calls s @ new \<Longrightarrow> frees s s' = filter is_free_stream new"
  by (simp add: frees_def new_calls_def)

lemma play_song_by_index_release:
  assumes "Pys2Playlist_play_song_by_index i s = Inr (song, s1)"
  shows "frees s s1 = (case current s of None \<Rightarrow> [] | Some c \<Rightarrow> [FreeStream c])
       \<and> current s1 = Some song \<and> fadein_song s1 = fadein_song s"
proof -
  from assms obtain p1 where e: "play_entry (nat i) s = (song, p1)"
    and s1: "s1 = emit (music_playing song) (emit (song_changed song) p1)"
    by (auto simp add: Pys2Playlist_play_song_by_index_def Playlist_play_song_by_index_def
        split: if_splits sum.splits prod.splits)
  from play_entry_release [OF e] s1 show ?thesis
    by (auto simp add: frees_append emit_def split: option.splits)
qed

lemma play_song_by_id_release:
  assumes "Pys2Playlist_play_song_by_id x s = Inr (song, s1)"
  shows "frees s s1 = (case current s of None \<Rightarrow> [] | Some c \<Rightarrow> [FreeStream c])
       \<and> current s1 = Some song \<and> fadein_song s1 = fadein_song s"
proof -
  from assms obtain n p1 where e: "play_entry n s = (song, p1)"
    and s1: "s1 = emit (music_playing song) (emit (song_changed song) p1)"
    by (auto simp add: Pys2Playlist_play_song_by_id_def Playlist_play_song_by_id_def
        split: option.splits sum.splits prod.splits)
  from play_entry_release [OF e] s1 show ?thesis
    by (auto simp add: frees_append emit_def split: option.splits)
qed

lemma play_first_release:
  assumes "Pys2Playlist_play_first s = (Some song, s1)"
  shows "frees s s1 = (case current s of None \<Rightarrow> [] | Some c \<Rightarrow> [FreeStream c])
       \<and> current s1 = Some song \<and> fadein_song s1 = fadein_song s"
proof -
  from assms obtain p1 where e: "play_entry 0 s = (song, p1)"
    and s1: "s1 = emit (music_playing song) (emit (song_changed song) p1)"
    by (auto simp add: Pys2Playlist_play_first_def Playlist_play_first_def
        split: if_splits option.splits prod.splits)
  from play_entry_release [OF e] s1 show ?thesis
    by (auto simp add: frees_append emit_def split: option.splits)
qed

lemma play_first_empty:
  assumes "Pys2Playlist_play_first s = (None, s1)"
  shows "s1 = s"
  using assms
  by (auto simp add: Pys2Playlist_play_first_def Playlist_play_first_def
      split: if_splits option.splits prod.splits)

lemma set_mode_release:
  "frees s (emit queue_changed (Playlist_set_mode m r s))
     = (if r \<and> queue s \<noteq> [] then (case current s of None \<Rightarrow> [] | Some c \<Rightarrow> [FreeStream c])
        else [])
   \<and> fadein_song (emit queue_changed (Playlist_set_mode m r s)) = fadein_song s
   \<and> (\<not> (r \<and> queue s \<noteq> []) \<longrightarrow>
        current (emit queue_changed (Playlist_set_mode m r s)) = current s)"
  by (auto simp add: Playlist_set_mode_def Playlist_play_first_def play_entry_def frees_def
      new_calls_def emit_def handle_defs Let_def split: option.splits)

lemma play_release:
  "frees s (Pys2Playlist_play s) = []"
  "fadein_song (Pys2Playlist_play s) = fadein_song s"
  "current s = Some c \<Longrightarrow> current (Pys2Playlist_play s) = Some c"
  by (auto simp add: Pys2Playlist_play_def Playlist_play_def frees_def new_calls_def emit_def
      handle_defs Let_def split: option.splits)

lemma tick_owned_released:
  assumes "t \<in> owned s" and "t \<notin> owned (Pys2Playlist_tick draw s)"
  shows "count_list (frees s (Pys2Playlist_tick draw s)) (FreeStream t) = 1"
proof (cases "current s")
  case None
  with assms show ?thesis
    by (simp add: tick_no_current owned_def)
next
  case (Some c)
  from tick_release_paths [OF Some, of draw] assms Some show ?thesis
    by (auto simp add: owned_def)
qed

text \<open>
  Claim C7: every execution path that clears or replaces the \<open>current\<close> or the
  \<open>fadein_song\<close> reference invokes the \<^verbatim>\<open>free_stream\<close> of the track that is
  dropped exactly once, never zero times and never twice.

  A tick that finds a current song \<open>c\<close> calls \<^verbatim>\<open>free_stream\<close> at most once and
  only on \<open>c\<close>; it does so whenever it replaces \<open>current\<close> or clears
  \<open>fadein_song\<close>, and exactly on the two paths that assign \<open>current\<close>: no data
  left, not LoopSingle, and inside a fade window only with \<open>fadein_song\<close> set.
  When it releases \<open>c\<close> inside the fade window, \<open>fadein_song\<close> becomes the current
  song and is cleared; outside, the queue's next track becomes the current song (or
  none) and \<open>fadein_song\<close> stays. When it releases nothing, \<open>c\<close> stays current. A
  tick with no current song calls no handle and changes no reference. A set
  \<open>fadein_song\<close> is only ever kept or promoted to \<open>current\<close>, never dropped, and
  every track that the playlist holds before a tick and no longer holds after it
  has been released exactly once.

  \<open>play_song_by_index\<close>, \<open>play_song_by_id\<close>, \<open>play_first\<close> and a change of
  mode that restarts playback replace \<open>current\<close>: they release the outgoing
  current song exactly once (nothing when there is none) and leave \<open>fadein_song\<close>
  as it is. \<open>play()\<close>, \<open>next()\<close>, \<open>previous()\<close>, \<open>play_first\<close> on an empty
  queue and a change of mode without restart release nothing and drop no
  reference.
\<close>

theorem C7_release_once:
  "(current s = Some c \<longrightarrow>
      (frees s (Pys2Playlist_tick draw s) = []
       \<or> frees s (Pys2Playlist_tick draw s) = [FreeStream c])
    \<and> (current (Pys2Playlist_tick draw s) \<noteq> Some c
        \<or> (fadein_song s \<noteq> None \<and> fadein_song (Pys2Playlist_tick draw s) \<noteq> fadein_song s)
        \<longrightarrow> frees s (Pys2Playlist_tick draw s) = [FreeStream c])
    \<and> (frees s (Pys2Playlist_tick draw s) = [FreeStream c] \<longleftrightarrow>
         remaining_bytes (songs s c) \<le> 0 \<and> play_mode s \<noteq> loop_single
         \<and> (0 < fade_in s \<and> remaining_seconds (songs s c) \<le> fade_in s
             \<longrightarrow> fadein_song s \<noteq> None))
    \<and> (frees s (Pys2Playlist_tick draw s) = [] \<longrightarrow>
         current (Pys2Playlist_tick draw s) = Some c)
    \<and> (frees s (Pys2Playlist_tick draw s) = [FreeStream c]
        \<and> 0 < fade_in s \<and> remaining_seconds (songs s c) \<le> fade_in s \<longrightarrow>
         current (Pys2Playlist_tick draw s) = fadein_song s
         \<and> fadein_song (Pys2Playlist_tick draw s) = None)
    \<and> (frees s (Pys2Playlist_tick draw s) = [FreeStream c]
        \<and> \<not> (0 < fade_in s \<and> remaining_seconds (songs s c) \<le> fade_in s) \<longrightarrow>
         current (Pys2Playlist_tick draw s) = Playlist_upcoming draw s
         \<and> fadein_song (Pys2Playlist_tick draw s) = fadein_song s))
   \<and> (current s = None \<longrightarrow>
        new_calls s (Pys2Playlist_tick draw s) = []
        \<and> current (Pys2Playlist_tick draw s) = None
        \<and> fadein_song (Pys2Playlist_tick draw s) = fadein_song s)
   \<and> (fadein_song s = Some f \<longrightarrow>
        fadein_song (Pys2Playlist_tick draw s) = Some f
        \<or> fadein_song (Pys2Playlist_tick draw s) = None
          \<and> current (Pys2Playlist_tick draw s) = Some f)
   \<and> (\<forall>t \<in> owned s. t \<notin> owned (Pys2Playlist_tick draw s) \<longrightarrow>
        count_list (frees s (Pys2Playlist_tick draw s)) (FreeStream t) = 1)
   \<and> (Pys2Playlist_play_song_by_index i s = Inr (song, s1) \<longrightarrow>
        frees s s1 = (case current s of None \<Rightarrow> [] | Some c' \<Rightarrow> [FreeStream c'])
        \<and> current s1 = Some song \<and> fadein_song s1 = fadein_song s)
   \<and> (Pys2Playlist_play_song_by_id x s = Inr (song, s1) \<longrightarrow>
        frees s s1 = (case current s of None \<Rightarrow> [] | Some c' \<Rightarrow> [FreeStream c'])
        \<and> current s1 = Some song \<and> fadein_song s1 = fadein_song s)
   \<and> (Pys2Playlist_play_first s = (Some song, s1) \<longrightarrow>
        frees s s1 = (case current s of None \<Rightarrow> [] | Some c' \<Rightarrow> [FreeStream c'])
        \<and> current s1 = Some song \<and> fadein_song s1 = fadein_song s)
   \<and> (Pys2Playlist_play_first s = (None, s1) \<longrightarrow> s1 = s)
   \<and> (\<not> (r \<and> queue s \<noteq> []) \<longrightarrow>
        frees s (Pys2Playlist_set_sequential r s) = []
        \<and> current (Pys2Playlist_set_sequential r s) = current s
        \<and> fadein_song (Pys2Playlist_set_sequential r s) = fadein_song s
        \<and> frees s (Pys2Playlist_set_randomize r s) = []
        \<and> current (Pys2Playlist_set_randomize r s) = current s
        \<and> fadein_song (Pys2Playlist_set_randomize r s) = fadein_song s)
   \<and> (r \<and> queue s \<noteq> [] \<longrightarrow>
        frees s (Pys2Playlist_set_sequential r s)
          = (case current s of None \<Rightarrow> [] | Some c' \<Rightarrow> [FreeStream c'])
        \<and> fadein_song (Pys2Playlist_set_sequential r s) = fadein_song s
        \<and> frees s (Pys2Playlist_set_randomize r s)
          = (case current s of None \<Rightarrow> [] | Some c' \<Rightarrow> [FreeStream c'])
        \<and> fadein_song (Pys2Playlist_set_randomize r s) = fadein_song s)
   \<and> (current s = Some c \<longrightarrow>
        frees s (Pys2Playlist_play s) = []
        \<and> current (Pys2Playlist_play s) = Some c
        \<and> fadein_song (Pys2Playlist_play s) = fadein_song s)
   \<and> (current s = None \<longrightarrow>
        frees s (Pys2Playlist_play s) = []
        \<and> fadein_song (Pys2Playlist_play s) = fadein_song s)
   \<and> frees s (snd (Pys2Playlist_next draw s)) = []
   \<and> current (snd (Pys2Playlist_next draw s)) = current s
   \<and> fadein_song (snd (Pys2Playlist_next draw s)) = fadein_song s
   \<and> frees s (snd (Pys2Playlist_previous draw s)) = []
   \<and> current (snd (Pys2Playlist_previous draw s)) = current s
   \<and> fadein_song (snd (Pys2Playlist_previous draw s)) = fadein_song s"
proof -
  have tick_current: "current s = Some c \<longrightarrow>
      (frees s (Pys2Playlist_tick draw s) = []
       \<or> frees s (Pys2Playlist_tick draw s) = [FreeStream c])
    \<and> (current (Pys2Playlist_tick draw s) \<noteq> Some c
        \<or> (fadein_song s \<noteq> None \<and> fadein_song (Pys2Playlist_tick draw s) \<noteq> fadein_song s)
        \<longrightarrow> frees s (Pys2Playlist_tick draw s) = [FreeStream c])
    \<and> (frees s (Pys2Playlist_tick draw s) = [FreeStream c] \<longleftrightarrow>
         remaining_bytes (songs s c) \<le> 0 \<and> play_mode s \<noteq> loop_single
         \<and> (0 < fade_in s \<and> remaining_seconds (songs s c) \<le> fade_in s
             \<longrightarrow> fadein_song s \<noteq> None))
    \<and> (frees s (Pys2Playlist_tick draw s) = [] \<longrightarrow>
         current (Pys2Playlist_tick draw s) = Some c)
    \<and> (frees s (Pys2Playlist_tick draw s) = [FreeStream c]
        \<and> 0 < fade_in s \<and> remaining_seconds (songs s c) \<le> fade_in s \<longrightarrow>
         current (Pys2Playlist_tick draw s) = fadein_song s
         \<and> fadein_song (Pys2Playlist_tick draw s) = None)
    \<and> (frees s (Pys2Playlist_tick draw s) = [FreeStream c]
        \<and> \<not> (0 < fade_in s \<and> remaining_seconds (songs s c) \<le> fade_in s) \<longrightarrow>
         current (Pys2Playlist_tick draw s) = Playlist_upcoming draw s
         \<and> fadein_song (Pys2Playlist_tick draw s) = fadein_song s)"
  proof
    assume cur: "current s = Some c"
    from tick_release_paths [OF cur, of draw]
    consider (released) "frees s (Pys2Playlist_tick draw s) = [FreeStream c]"
        "remaining_bytes (songs s c) \<le> 0 \<and> play_mode s \<noteq> loop_single
         \<and> (0 < fade_in s \<and> remaining_seconds (songs s c) \<le> fade_in s
             \<longrightarrow> fadein_song s \<noteq> None)"
        "0 < fade_in s \<and> remaining_seconds (songs s c) \<le> fade_in s
           \<longrightarrow> current (Pys2Playlist_tick draw s) = fadein_song s
               \<and> fadein_song (Pys2Playlist_tick draw s) = None"
        "\<not> (0 < fade_in s \<and> remaining_seconds (songs s c) \<le> fade_in s)
           \<longrightarrow> current (Pys2Playlist_tick draw s) = Playlist_upcoming draw s
               \<and> fadein_song (Pys2Playlist_tick draw s) = fadein_song s"
      | (kept) "frees s (Pys2Playlist_tick draw s) = []"
        "\<not> (remaining_bytes (songs s c) \<le> 0 \<and> play_mode s \<noteq> loop_single
             \<and> (0 < fade_in s \<and> remaining_seconds (songs s c) \<le> fade_in s
                 \<longrightarrow> fadein_song s \<noteq> None))"
        "current (Pys2Playlist_tick draw s) = Some c"
        "fadein_song (Pys2Playlist_tick draw s) = fadein_song s \<or> fadein_song s = None"
      by auto
    then show "(frees s (Pys2Playlist_tick draw s) = []
       \<or> frees s (Pys2Playlist_tick draw s) = [FreeStream c])
    \<and> (current (Pys2Playlist_tick draw s) \<noteq> Some c
        \<or> (fadein_song s \<noteq> None \<and> fadein_song (Pys2Playlist_tick draw s) \<noteq> fadein_song s)
        \<longrightarrow> frees s (Pys2Playlist_tick draw s) = [FreeStream c])
    \<and> (frees s (Pys2Playlist_tick draw s) = [FreeStream c] \<longleftrightarrow>
         remaining_bytes (songs s c) \<le> 0 \<and> play_mode s \<noteq> loop_single
         \<and> (0 < fade_in s \<and> remaining_seconds (songs s c) \<le> fade_in s
             \<longrightarrow> fadein_song s \<noteq> None))
    \<and> (frees s (Pys2Playlist_tick draw s) = [] \<longrightarrow>
         current (Pys2Playlist_tick draw s) = Some c)
    \<and> (frees s (Pys2Playlist_tick draw s) = [FreeStream c]
        \<and> 0 < fade_in s \<and> remaining_seconds (songs s c) \<le> fade_in s \<longrightarrow>
         current (Pys2Playlist_tick draw s) = fadein_song s
         \<and> fadein_song (Pys2Playlist_tick draw s) = None)
    \<and> (frees s (Pys2Playlist_tick draw s) = [FreeStream c]
        \<and> \<not> (0 < fade_in s \<and> remaining_seconds (songs s c) \<le> fade_in s) \<longrightarrow>
         current (Pys2Playlist_tick draw s) = Playlist_upcoming draw s
         \<and> fadein_song (Pys2Playlist_tick draw s) = fadein_song s)"
    proof cases
      case released
      then show ?thesis by simp
    next
      case kept
      then show ?thesis by auto
    qed
  qed
  have tick_idle: "current s = None \<longrightarrow>
        new_calls s (Pys2Playlist_tick draw s) = []
        \<and> current (Pys2Playlist_tick draw s) = None
        \<and> fadein_song (Pys2Playlist_tick draw s) = fadein_song s"
    by (simp add: tick_no_current new_calls_def)
  have fadein: "fadein_song s = Some f \<longrightarrow>
        fadein_song (Pys2Playlist_tick draw s) = Some f
        \<or> fadein_song (Pys2Playlist_tick draw s) = None
          \<and> current (Pys2Playlist_tick draw s) = Some f"
    using tick_fadein_song [of s f draw] by (rule impI)
  have dropped: "\<forall>t \<in> owned s. t \<notin> owned (Pys2Playlist_tick draw s) \<longrightarrow>
        count_list (frees s (Pys2Playlist_tick draw s)) (FreeStream t) = 1"
    using tick_owned_released [of _ s draw] by (intro ballI impI)
  have by_index: "Pys2Playlist_play_song_by_index i s = Inr (song, s1) \<longrightarrow>
        frees s s1 = (case current s of None \<Rightarrow> [] | Some c' \<Rightarrow> [FreeStream c'])
        \<and> current s1 = Some song \<and> fadein_song s1 = fadein_song s"
    using play_song_by_index_release [of i s song s1] by (rule impI)
  have by_id: "Pys2Playlist_play_song_by_id x s = Inr (song, s1) \<longrightarrow>
        frees s s1 = (case current s of None \<Rightarrow> [] | Some c' \<Rightarrow> [FreeStream c'])
        \<and> current s1 = Some song \<and> fadein_song s1 = fadein_song s"
    using play_song_by_id_release [of x s song s1] by (rule impI)
  have first: "Pys2Playlist_play_first s = (Some song, s1) \<longrightarrow>
        frees s s1 = (case current s of None \<Rightarrow> [] | Some c' \<Rightarrow> [FreeStream c'])
        \<and> current s1 = Some song \<and> fadein_song s1 = fadein_song s"
    using play_first_release [of s song s1] by (rule impI)
  have first_empty: "Pys2Playlist_play_first s = (None, s1) \<longrightarrow> s1 = s"
    using play_first_empty [of s s1] by (rule impI)
  have mode_kept: "\<not> (r \<and> queue s \<noteq> []) \<longrightarrow>
        frees s (Pys2Playlist_set_sequential r s) = []
        \<and> current (Pys2Playlist_set_sequential r s) = current s
        \<and> fadein_song (Pys2Playlist_set_sequential r s) = fadein_song s
        \<and> frees s (Pys2Playlist_set_randomize r s) = []
        \<and> current (Pys2Playlist_set_randomize r s) = current s
        \<and> fadein_song (Pys2Playlist_set_randomize r s) = fadein_song s"
    using set_mode_release [of s sequential r] set_mode_release [of s randomize r]
    by (auto simp add: Pys2Playlist_set_sequential_def Pys2Playlist_set_randomize_def)
  have mode_restart: "r \<and> queue s \<noteq> [] \<longrightarrow>
        frees s (Pys2Playlist_set_sequential r s)
          = (case current s of None \<Rightarrow> [] | Some c' \<Rightarrow> [FreeStream c'])
        \<and> fadein_song (Pys2Playlist_set_sequential r s) = fadein_song s
        \<and> frees s (Pys2Playlist_set_randomize r s)
          = (case current s of None \<Rightarrow> [] | Some c' \<Rightarrow> [FreeStream c'])
        \<and> fadein_song (Pys2Playlist_set_randomize r s) = fadein_song s"
    using set_mode_release [of s sequential r] set_mode_release [of s randomize r]
    by (auto simp add: Pys2Playlist_set_sequential_def Pys2Playlist_set_randomize_def)
  have resume: "current s = Some c \<longrightarrow>
        frees s (Pys2Playlist_play s) = []
        \<and> current (Pys2Playlist_play s) = Some c
        \<and> fadein_song (Pys2Playlist_play s) = fadein_song s"
    by (simp add: play_release)
  have start: "current s = None \<longrightarrow>
        frees s (Pys2Playlist_play s) = []
        \<and> fadein_song (Pys2Playlist_play s) = fadein_song s"
    by (simp add: play_release)
  have resolve: "frees s (snd (Pys2Playlist_next draw s)) = []"
    "current (snd (Pys2Playlist_next draw s)) = current s"
    "fadein_song (snd (Pys2Playlist_next draw s)) = fadein_song s"
    "frees s (snd (Pys2Playlist_previous draw s)) = []"
    "current (snd (Pys2Playlist_previous draw s)) = current s"
    "fadein_song (snd (Pys2Playlist_previous draw s)) = fadein_song s"
    by (simp_all add: Pys2Playlist_next_eq Pys2Playlist_previous_eq frees_def new_calls_def
        emit_def split: option.splits)
  show ?thesis
    by (intro conjI; fact)
qed

theorem C7_release_once_witness:
  "current scenario_A = Some ''T1''
   \<and> current (Pys2Playlist_tick 0 scenario_A) \<noteq> Some ''T1''
   \<and> frees scenario_A (Pys2Playlist_tick 0 scenario_A) = [FreeStream ''T1'']
   \<and> current scenario_B_end = Some ''T1'' \<and> fadein_song scenario_B_end = Some ''T2''
   \<and> 0 < fade_in scenario_B_end
   \<and> remaining_seconds (songs scenario_B_end ''T1'') \<le> fade_in scenario_B_end
   \<and> remaining_bytes (songs scenario_B_end ''T1'') \<le> 0
   \<and> play_mode scenario_B_end \<noteq> loop_single
   \<and> frees scenario_B_end (Pys2Playlist_tick 0 scenario_B_end) = [FreeStream ''T1'']
   \<and> current (Pys2Playlist_tick 0 scenario_B_end) = Some ''T2''
   \<and> fadein_song (Pys2Playlist_tick 0 scenario_B_end) = None
   \<and> ''T1'' \<in> owned scenario_B_end
   \<and> ''T1'' \<notin> owned (Pys2Playlist_tick 0 scenario_B_end)
   \<and> count_list (frees scenario_B_end (Pys2Playlist_tick 0 scenario_B_end))
        (FreeStream ''T1'') = 1
   \<and> fadein_song scenario_B_fading = Some ''T2''
   \<and> fadein_song (Pys2Playlist_tick 0 scenario_B_fading) \<noteq> None
   \<and> fadein_song (Pys2Playlist_tick 0 scenario_B_fading) = Some ''T2''
   \<and> current no_song = None
   \<and> new_calls no_song (Pys2Playlist_tick 0 no_song) = []
   \<and> Pys2Playlist_play_song_by_index 1 playing_T1
       = Inr (''T2'', emit (music_playing ''T2'')
                        (emit (song_changed ''T2'') (snd (play_entry 1 playing_T1))))
   \<and> frees playing_T1
        (emit (music_playing ''T2'') (emit (song_changed ''T2'') (snd (play_entry 1 playing_T1))))
       = [FreeStream ''T1'']
   \<and> Pys2Playlist_play_song_by_id ''T2'' playing_T1
       = Inr (''T2'', emit (music_playing ''T2'')
                        (emit (song_changed ''T2'') (snd (play_entry 1 playing_T1))))
   \<and> Pys2Playlist_play_first at_T2
       = (Some ''T1'', emit (music_playing ''T1'')
                         (emit (song_changed ''T1'') (snd (play_entry 0 at_T2))))
   \<and> frees at_T2
        (emit (music_playing ''T1'') (emit (song_changed ''T1'') (snd (play_entry 0 at_T2))))
       = [FreeStream ''T2'']
   \<and> Pys2Playlist_play_first empty_playlist = (None, empty_playlist)
   \<and> queue at_T2 \<noteq> []
   \<and> frees at_T2 (Pys2Playlist_set_sequential True at_T2) = [FreeStream ''T2'']
   \<and> frees at_T2 (Pys2Playlist_set_sequential False at_T2) = []
   \<and> current (Pys2Playlist_set_sequential False at_T2) = Some ''T2''
   \<and> current playing_T1 = Some ''T1''
   \<and> frees playing_T1 (Pys2Playlist_play playing_T1) = []
   \<and> current (Pys2Playlist_play playing_T1) = Some ''T1''
   \<and> frees no_song (Pys2Playlist_play no_song) = []"
proof -
  note tick_eval = Pys2Playlist_tick_def Pys2Playlist_next_def Playlist_next_def entry_at_def
    emit_def handle_defs scenario_defs
  note play_eval = Pys2Playlist_play_song_by_index_def Playlist_play_song_by_index_def
    Pys2Playlist_play_song_by_id_def Playlist_play_song_by_id_def Pys2Playlist_play_first_def
    Playlist_play_first_def play_entry_def emit_def handle_defs scenario_defs Let_def
  have a: "current scenario_A = Some ''T1''"
    "current (Pys2Playlist_tick 0 scenario_A) \<noteq> Some ''T1''"
    by (simp_all add: tick_eval)
  have b: "current scenario_B_end = Some ''T1''" "fadein_song scenario_B_end = Some ''T2''"
    "0 < fade_in scenario_B_end"
    "remaining_seconds (songs scenario_B_end ''T1'') \<le> fade_in scenario_B_end"
    "remaining_bytes (songs scenario_B_end ''T1'') \<le> 0"
    "play_mode scenario_B_end \<noteq> loop_single"
    by (simp_all add: scenario_defs)
  have o: "''T1'' \<in> owned scenario_B_end"
    "''T1'' \<notin> owned (Pys2Playlist_tick 0 scenario_B_end)"
    by (simp_all add: owned_def tick_eval)
  have f: "fadein_song scenario_B_fading = Some ''T2''"
    "fadein_song (Pys2Playlist_tick 0 scenario_B_fading) \<noteq> None"
    by (simp_all add: tick_eval)
  have n: "current no_song = None" "current playing_T1 = Some ''T1''" "queue at_T2 \<noteq> []"
    "current at_T2 = Some ''T2''"
    by (simp_all add: scenario_defs)
  have p: "Pys2Playlist_play_song_by_index 1 playing_T1
       = Inr (''T2'', emit (music_playing ''T2'')
                        (emit (song_changed ''T2'') (snd (play_entry 1 playing_T1))))"
    "Pys2Playlist_play_song_by_id ''T2'' playing_T1
       = Inr (''T2'', emit (music_playing ''T2'')
                        (emit (song_changed ''T2'') (snd (play_entry 1 playing_T1))))"
    "Pys2Playlist_play_first at_T2
       = (Some ''T1'', emit (music_playing ''T1'')
                         (emit (song_changed ''T1'') (snd (play_entry 0 at_T2))))"
    "Pys2Playlist_play_first empty_playlist = (None, empty_playlist)"
    by (simp_all add: play_eval)
  note A = C7_release_once [where s = scenario_A and c = "''T1''" and draw = 0]
  note B = C7_release_once [where s = scenario_B_end and c = "''T1''" and draw = 0
      and f = "''T2''"]
  note F = C7_release_once [where s = scenario_B_fading and draw = 0 and f = "''T2''"]
  note N = C7_release_once [where s = no_song and draw = 0]
  note P = C7_release_once [where s = playing_T1 and c = "''T1''" and i = 1 and x = "''T2''"
      and song = "''T2''"
      and ?s1.0 = "emit (music_playing ''T2'')
                     (emit (song_changed ''T2'') (snd (play_entry 1 playing_T1)))"]
  note Q = C7_release_once [where s = at_T2 and song = "''T1''" and r = True
      and ?s1.0 = "emit (music_playing ''T1'')
                     (emit (song_changed ''T1'') (snd (play_entry 0 at_T2)))"]
  note R = C7_release_once [where s = at_T2 and r = False]
  have 1: "frees scenario_A (Pys2Playlist_tick 0 scenario_A) = [FreeStream ''T1'']"
    using A [THEN conjunct1] a by blast
  have 2: "frees scenario_B_end (Pys2Playlist_tick 0 scenario_B_end) = [FreeStream ''T1'']"
    using B [THEN conjunct1] b by simp
  have 3: "current (Pys2Playlist_tick 0 scenario_B_end) = Some ''T2''"
    "fadein_song (Pys2Playlist_tick 0 scenario_B_end) = None"
    using B [THEN conjunct1] b 2 by simp_all
  have 4: "count_list (frees scenario_B_end (Pys2Playlist_tick 0 scenario_B_end))
        (FreeStream ''T1'') = 1"
    using B [THEN conjunct2, THEN conjunct2, THEN conjunct2, THEN conjunct1] o by blast
  have 5: "fadein_song (Pys2Playlist_tick 0 scenario_B_fading) = Some ''T2''"
    using F [THEN conjunct2, THEN conjunct2, THEN conjunct1] f by blast
  have 6: "new_calls no_song (Pys2Playlist_tick 0 no_song) = []"
    using N [THEN conjunct2, THEN conjunct1] n by blast
  have 7: "frees playing_T1
        (emit (music_playing ''T2'') (emit (song_changed ''T2'') (snd (play_entry 1 playing_T1))))
       = [FreeStream ''T1'']"
    using P [THEN conjunct2, THEN conjunct2, THEN conjunct2, THEN conjunct2, THEN conjunct1]
      p(1) n(2) by simp
  have 8: "frees at_T2
        (emit (music_playing ''T1'') (emit (song_changed ''T1'') (snd (play_entry 0 at_T2))))
       = [FreeStream ''T2'']"
    using Q [THEN conjunct2, THEN conjunct2, THEN conjunct2, THEN conjunct2, THEN conjunct2,
        THEN conjunct2, THEN conjunct1] p(3) n(4) by simp
  have 9: "frees at_T2 (Pys2Playlist_set_sequential True at_T2) = [FreeStream ''T2'']"
    using Q [THEN conjunct2, THEN conjunct2, THEN conjunct2, THEN conjunct2, THEN conjunct2,
        THEN conjunct2, THEN conjunct2, THEN conjunct2, THEN conjunct2, THEN conjunct1]
      n(3,4) by simp
  have 10: "frees at_T2 (Pys2Playlist_set_sequential False at_T2) = []"
    "current (Pys2Playlist_set_sequential False at_T2) = Some ''T2''"
    using R [THEN conjunct2, THEN conjunct2, THEN conjunct2, THEN conjunct2, THEN conjunct2,
        THEN conjunct2, THEN conjunct2, THEN conjunct2, THEN conjunct1] n(4) by simp_all
  have 11: "frees playing_T1 (Pys2Playlist_play playing_T1) = []"
    "current (Pys2Playlist_play playing_T1) = Some ''T1''"
    using P [THEN conjunct2, THEN conjunct2, THEN conjunct2, THEN conjunct2, THEN conjunct2,
        THEN conjunct2, THEN conjunct2, THEN conjunct2, THEN conjunct2, THEN conjunct2,
        THEN conjunct1] n(2) by simp_all
  have 12: "frees no_song (Pys2Playlist_play no_song) = []"
    using N [THEN conjunct2, THEN conjunct2, THEN conjunct2, THEN conjunct2, THEN conjunct2,
        THEN conjunct2, THEN conjunct2, THEN conjunct2, THEN conjunct2, THEN conjunct2,
        THEN conjunct2] n(1) by simp
  show ?thesis
    by (intro conjI; fact)
qed

section \<open>The playback controller\<close>

text \<open>
  Claim C8, as stated: two calls of \<open>play()\<close> in succession while a current track
  is already playing emit exactly one \<open>music_playing\<close> in total. Each call emits
  \<open>music_playing\<close> when the current song is playing after
  \<^verbatim>\<open>super().play()\<close> (lines 100-101), so the two calls emit two.
\<close>

theorem C8_play_twice_counterexample:
  "current playing_T1 = Some ''T1'' \<and> is_playing (songs playing_T1 ''T1'')
   \<and> new_signals playing_T1 (Pys2Playlist_play (Pys2Playlist_play playing_T1))
       = [music_playing ''T1'', music_playing ''T1'']
   \<and> count_list (new_signals playing_T1 (Pys2Playlist_play (Pys2Playlist_play playing_T1)))
        (music_playing ''T1'') \<noteq> 1"
  by (simp add: new_signals_def Pys2Playlist_play_def Playlist_play_def emit_def handle_defs
      scenario_defs)

text \<open>
  Claim C8, amended: each of two calls of \<open>play()\<close> in succession while a current
  track is already playing emits one \<open>music_playing\<close>, two in total, and the two
  calls emit no \<open>song_changed\<close>; a call of \<open>play()\<close> emits \<open>song_changed\<close>
  for a track exactly when it takes the playlist from no current track to that
  track as the current one.
\<close>

theorem C8_play_twice:
  "(current s = Some c \<and> is_playing (songs s c) \<longrightarrow>
      new_signals s (Pys2Playlist_play (Pys2Playlist_play s))
        = [music_playing c, music_playing c])
   \<and> (song_changed x \<in> set (new_signals s (Pys2Playlist_play s)) \<longleftrightarrow>
        current s = None \<and> current (Pys2Playlist_play s) = Some x)"
proof (intro conjI impI)
  assume a: "current s = Some c \<and> is_playing (songs s c)"
  let ?s1 = "Pys2Playlist_play s"
  from a have s1: "?s1 =
      (Song_play c s)\<lparr>emitted := emitted s @ [music_playing c], ticker_active := True\<rparr>"
    by (simp add: play_playing)
  then have "current ?s1 = Some c" "is_playing (songs ?s1 c)"
    "emitted ?s1 = emitted s @ [music_playing c]"
    using a by (simp_all add: handle_defs)
  then have "emitted (Pys2Playlist_play ?s1) = emitted s @ [music_playing c, music_playing c]"
    by (simp add: play_playing handle_defs)
  then show "new_signals s (Pys2Playlist_play ?s1) = [music_playing c, music_playing c]"
    by (simp add: new_signals_def)
next
  show "song_changed x \<in> set (new_signals s (Pys2Playlist_play s)) \<longleftrightarrow>
        current s = None \<and> current (Pys2Playlist_play s) = Some x"
    using play_emitted_shape [of s] by (auto simp add: new_signals_def)
qed

theorem C8_play_twice_witness:
  "current playing_T1 = Some ''T1'' \<and> is_playing (songs playing_T1 ''T1'')
   \<and> new_signals playing_T1 (Pys2Playlist_play (Pys2Playlist_play playing_T1))
       = [music_playing ''T1'', music_playing ''T1'']
   \<and> current no_song = None \<and> current (Pys2Playlist_play no_song) = Some ''T1''
   \<and> song_changed ''T1'' \<in> set (new_signals no_song (Pys2Playlist_play no_song))"
proof -
  have a: "current playing_T1 = Some ''T1'' \<and> is_playing (songs playing_T1 ''T1'')"
    by (simp add: scenario_defs)
  have b: "current no_song = None \<and> current (Pys2Playlist_play no_song) = Some ''T1''"
    by (simp add: Pys2Playlist_play_def Playlist_play_def emit_def handle_defs scenario_defs)
  from a C8_play_twice [of playing_T1 "''T1''"]
  have "new_signals playing_T1 (Pys2Playlist_play (Pys2Playlist_play playing_T1))
          = [music_playing ''T1'', music_playing ''T1'']"
    by blast
  moreover from b C8_play_twice [of no_song _ "''T1''"]
  have "song_changed ''T1'' \<in> set (new_signals no_song (Pys2Playlist_play no_song))"
    by blast
  ultimately show ?thesis
    using a b by simp
qed

text \<open>
  Claim C9. The claim: \<open>previous()\<close>, like \<open>next()\<close>, emits \<open>song_changed\<close>
  exactly when the queue resolves a track, starts no playback itself, and returns
  the resolved track or \<open>None\<close>. On the code, \<open>previous()\<close> has no
  \<^verbatim>\<open>return\<close> statement: with \<open>T2\<close> current in the queue \<open>[T1, T2]\<close> the
  queue resolves \<open>T1\<close>, \<open>song_changed\<close> is emitted for it and no handle is called,
  but the value of the call is \<open>None\<close>, where \<open>next()\<close> returns its resolved
  track.
\<close>

theorem C9_previous_returns_None:
  "fst (Playlist_previous 0 at_T2) = Some ''T1''
   \<and> fst (Pys2Playlist_previous 0 at_T2) = None
   \<and> new_signals at_T2 (snd (Pys2Playlist_previous 0 at_T2)) = [song_changed ''T1'']
   \<and> new_calls at_T2 (snd (Pys2Playlist_previous 0 at_T2)) = []
   \<and> fst (Pys2Playlist_next 0 playing_T1) = Some ''T2''"
  by (simp add: Pys2Playlist_previous_def Playlist_previous_def Pys2Playlist_next_def
      Playlist_next_def entry_at_def new_signals_def new_calls_def emit_def scenario_defs)

section \<open>Adding a directory\<close>

text \<open>
  The signals of the loop over a directory's own files: with \<open>surpress_emit\<close>
  false one \<open>song_added\<close> per added song, in order, otherwise none.
\<close>

lemma add_song_emitted:
  assumes "Pys2Playlist_add_song f se s = Inr (r, s')"
  shows "emitted s' = emitted s @ (case r of None \<Rightarrow> [] | Some i \<Rightarrow> if se then [] else [song_added i])"
  using assms
  by (auto simp add: Pys2Playlist_add_song_def Playlist_add_song_def emit_def
      split: catalog_reply.splits if_splits)

lemma add_files_emitted:
  assumes "add_files fs se ids s = Inr (ids', s')"
  shows "\<exists>added. ids' = ids @ added
           \<and> emitted s' = emitted s @ (if se then [] else map song_added added)"
  using assms
proof (induction fs arbitrary: ids s)
  case Nil
  then show ?case by simp
next
  case (Cons f fs)
  show ?case
  proof (cases "Pys2Playlist_add_song f se s")
    case (Inl e)
    with Cons.prems have "add_files fs se ids s = Inr (ids', s')"
      by (cases e) simp_all
    from Cons.IH [OF this] show ?thesis .
  next
    case (Inr p)
    obtain r s1 where p: "p = (r, s1)"
      by (cases p)
    show ?thesis
    proof (cases r)
      case None
      with Inr p Cons.prems have "add_files fs se ids s1 = Inr (ids', s')"
        by simp
      from Cons.IH [OF this] add_song_emitted [of f se s r s1] Inr p None
      show ?thesis by simp
    next
      case (Some i)
      with Inr p Cons.prems have "add_files fs se (ids @ [i]) s1 = Inr (ids', s')"
        by simp
      from Cons.IH [OF this] add_song_emitted [of f se s r s1] Inr p Some
      show ?thesis by auto
    qed
  qed
qed

text \<open>
  The aggregate signal: a call that returns emits \<open>songs_added\<close> once, with the
  returned position and song ids, when \<open>top\<close> and \<open>surpress_emit\<close> are both
  true, and never otherwise; the recursive calls emit none.
\<close>

lemma no_songs_added_in_song_added: "filter is_songs_added (map song_added xs) = []"
  by (induction xs) simp_all

lemma add_directory_signals:
  "add_directory d recurse is_top se s = Inr ((i, ids), s') \<Longrightarrow>
     \<exists>new. emitted s' = emitted s @ new
       \<and> filter is_songs_added new = (if is_top \<and> se then [songs_added i ids] else [])"
  and add_subdirs_signals:
  "add_subdirs ds recurse ids0 s = Inr (ids, s') \<Longrightarrow>
     \<exists>new. emitted s' = emitted s @ new \<and> filter is_songs_added new = []"
proof (induction d recurse is_top se s and ds recurse ids0 s arbitrary: i ids s' and ids s'
    rule: add_directory_add_subdirs.induct)
  case (1 fs ds recurse is_top surpress_emit s)
  let ?files = "filter (\<lambda>f. file_suffix f \<in> set (VALID_TYPES s)) fs"
  from "1.prems" obtain ids1 s1 where files: "add_files ?files surpress_emit [] s = Inr (ids1, s1)"
    by (auto simp add: Let_def split: sum.splits)
  from add_files_emitted [OF files]
  obtain new1 where new1: "emitted s1 = emitted s @ new1" "filter is_songs_added new1 = []"
    by (auto simp add: no_songs_added_in_song_added)
  from "1.prems" files obtain s2 where
    sub: "(if recurse then add_subdirs ds recurse ids1 s1 else Inr (ids1, s1)) = Inr (ids, s2)"
    and res: "s' = (if is_top \<and> surpress_emit then emit (songs_added i ids) s2 else s2)"
    by (auto simp add: Let_def split: sum.splits if_splits)
  have "\<exists>new2. emitted s2 = emitted s1 @ new2 \<and> filter is_songs_added new2 = []"
  proof (cases recurse)
    case True
    with sub have "add_subdirs ds recurse ids1 s1 = Inr (ids, s2)"
      by simp
    from "1.IH" [OF refl refl files refl True this] show ?thesis .
  next
    case False
    with sub show ?thesis by simp
  qed
  then obtain new2 where new2: "emitted s2 = emitted s1 @ new2" "filter is_songs_added new2 = []"
    by blast
  show ?case
  proof (cases "is_top \<and> surpress_emit")
    case True
    with res new1 new2 have "emitted s' = emitted s @ (new1 @ new2 @ [songs_added i ids])"
      by (simp add: emit_def)
    with True new1 new2 show ?thesis
      by (intro exI [of _ "new1 @ new2 @ [songs_added i ids]"]) simp
  next
    case False
    with res new1 new2 have "emitted s' = emitted s @ (new1 @ new2)"
      by auto
    with False new1 new2 show ?thesis
      by (intro exI [of _ "new1 @ new2"]) simp
  qed
next
  case (2 recurse song_ids s)
  then show ?case by simp
next
  case (3 fdir rest recurse song_ids s)
  from "3.prems" obtain i1 ids1 s1 where
    first: "add_directory fdir recurse False True s = Inr ((i1, ids1), s1)"
    and rest: "add_subdirs rest recurse (song_ids @ ids1) s1 = Inr (ids, s')"
    by (auto split: sum.splits)
  from "3.IH"(1) [OF first]
  obtain new1 where new1: "emitted s1 = emitted s @ new1" "filter is_songs_added new1 = []"
    by auto
  from "3.IH"(2) [OF first refl refl rest]
  obtain new2 where new2: "emitted s' = emitted s1 @ new2" "filter is_songs_added new2 = []"
    by auto
  from new1 new2 show ?case
    by (intro exI [of _ "new1 @ new2"]) simp
qed

text \<open>A call with \<open>top\<close> false returns the position \<open>-1\<close>.\<close>

lemma add_directory_not_top:
  "add_directory d recurse False surpress_emit s = Inr ((i, song_ids), s') \<Longrightarrow> i = - 1"
  by (cases d) (auto simp add: Let_def split: sum.splits if_splits prod.splits)

text \<open>
  Claim C10. The claim: with \<open>surpress_emit\<close> false every song that is added emits
  its own \<open>song_added\<close>. On the code, the recursive call of line 82 passes
  neither \<open>top\<close> nor \<open>surpress_emit\<close>, so a subdirectory is scanned with
  \<open>surpress_emit\<close> true: the song \<open>b\<close> of the subdirectory is added and returned
  among the song ids, and neither \<open>song_added\<close> nor \<open>songs_added\<close> is emitted for
  it.
\<close>

theorem C10_subdirectory_song_emits_nothing:
  "add_directory music_dir True True False empty_playlist
     = Inr ((1, [''a'', ''b'']),
            empty_playlist\<lparr>queue := [''a'', ''b''], emitted := [song_added ''a'']\<rparr>)"
  by (simp add: music_dir_def empty_playlist_def two_tracks_def Pys2Playlist_add_song_def
      Playlist_add_song_def Playlist_len_def emit_def)

end
